theory Spec2Isabelle
  imports Main "HOL-Library.Word" "HOL-Library.Log_Nat"
begin

unbundle bit_operations_syntax

section \<open>JavaScript numbers\<close>

text \<open>
  A JavaScript number is an IEEE-754 binary64 value.  A finite value is carried as the
  rational it denotes; \<open>NaN\<close> and the two infinities are constructors of their own.
  The two zeros are one value \<open>Fin 0\<close>: no operation that \<open>DOMElement.js\<close> applies
  to a number (\<open>*\<close>, \<open>+\<close>, \<open>/\<close> by the non-zero constant \<open>n\<close>, \<open>|0\<close>, \<open>!=\<close>,
  \<open>===\<close>, conversion to a string) tells them apart.
\<close>

datatype jsnum = NaN | PosInf | NegInf | Fin rat

definition pow2 :: "int \<Rightarrow> rat" where
  "pow2 e = (if 0 \<le> e then 2 ^ nat e else 1 / 2 ^ nat (- e))"

definition pow10 :: "int \<Rightarrow> rat" where
  "pow10 e = (if 0 \<le> e then 10 ^ nat e else 1 / 10 ^ nat (- e))"

text \<open>
  \<open>ilog b q\<close> is \<open>\<lfloor>log b \<bar>q\<bar>\<rfloor>\<close> for \<open>q \<noteq> 0\<close>: one less than the number
  of digits of the integer part from 1 on, and below 1 the least \<open>m\<close> with
  \<open>1 / \<bar>q\<bar> \<le> b ^ m\<close>, negated.
\<close>

definition ilog :: "nat \<Rightarrow> rat \<Rightarrow> int" where
  "ilog b q =
     (if 1 \<le> \<bar>q\<bar> then int (floorlog b (nat \<lfloor>\<bar>q\<bar>\<rfloor>)) - 1
      else - int (floorlog b (nat (\<lceil>1 / \<bar>q\<bar>\<rceil> - 1))))"

definition round_ties_even :: "rat \<Rightarrow> int" where
  "round_ties_even q = (let f = \<lfloor>q\<rfloor>; r = q - of_int f in
     if r < 1 / 2 then f else if 1 / 2 < r then f + 1 else if even f then f else f + 1)"

text \<open>
  Rounding of an exact result to binary64, to nearest with ties to even: 53 significant
  bits, exponents from \<open>-1022\<close> (below it the spacing stays \<open>2^-1074\<close>), overflow to
  an infinity from \<open>2^1024\<close> on.
\<close>

definition rnd64 :: "rat \<Rightarrow> jsnum" where
  "rnd64 q = (if q = 0 then Fin 0 else
     let e = max (ilog 2 q) (- 1022); u = pow2 (e - 52);
         r = of_int (round_ties_even (q / u)) * u
     in if pow2 1024 \<le> \<bar>r\<bar> then (if 0 < q then PosInf else NegInf) else Fin r)"

text \<open>A numeric literal of the source text, such as \<open>0.5\<close> or \<open>10000\<close>.\<close>

definition js_lit :: "rat \<Rightarrow> jsnum" where
  "js_lit q = rnd64 q"

fun js_add :: "jsnum \<Rightarrow> jsnum \<Rightarrow> jsnum" where
  "js_add NaN y = NaN"
| "js_add x NaN = NaN"
| "js_add PosInf NegInf = NaN"
| "js_add NegInf PosInf = NaN"
| "js_add PosInf y = PosInf"
| "js_add NegInf y = NegInf"
| "js_add x PosInf = PosInf"
| "js_add x NegInf = NegInf"
| "js_add (Fin a) (Fin b) = rnd64 (a + b)"

fun js_neg :: "jsnum \<Rightarrow> jsnum" where
  "js_neg NaN = NaN"
| "js_neg PosInf = NegInf"
| "js_neg NegInf = PosInf"
| "js_neg (Fin a) = Fin (- a)"

fun js_mul :: "jsnum \<Rightarrow> jsnum \<Rightarrow> jsnum" where
  "js_mul NaN y = NaN"
| "js_mul x NaN = NaN"
| "js_mul PosInf (Fin b) = (if b = 0 then NaN else if 0 < b then PosInf else NegInf)"
| "js_mul NegInf (Fin b) = (if b = 0 then NaN else if 0 < b then NegInf else PosInf)"
| "js_mul (Fin a) PosInf = (if a = 0 then NaN else if 0 < a then PosInf else NegInf)"
| "js_mul (Fin a) NegInf = (if a = 0 then NaN else if 0 < a then NegInf else PosInf)"
| "js_mul PosInf PosInf = PosInf"
| "js_mul PosInf NegInf = NegInf"
| "js_mul NegInf PosInf = NegInf"
| "js_mul NegInf NegInf = PosInf"
| "js_mul (Fin a) (Fin b) = rnd64 (a * b)"

text \<open>
  Division.  A zero divisor is taken as \<open>+0\<close>; the only divisor in \<open>DOMElement.js\<close>
  is the constant \<open>n = 10000\<close>.
\<close>

fun js_div :: "jsnum \<Rightarrow> jsnum \<Rightarrow> jsnum" where
  "js_div NaN y = NaN"
| "js_div x NaN = NaN"
| "js_div (Fin a) (Fin b) =
     (if b = 0 then (if a = 0 then NaN else if 0 < a then PosInf else NegInf)
      else rnd64 (a / b))"
| "js_div (Fin a) y = Fin 0"
| "js_div x (Fin b) = (if 0 \<le> b then x else js_neg x)"
| "js_div x y = NaN"

text \<open>
  The comparisons on numbers: \<open>===\<close> and \<open>==\<close> agree on two numbers, and \<open>NaN\<close>
  equals nothing, itself included.
\<close>

definition js_strict_eq :: "jsnum \<Rightarrow> jsnum \<Rightarrow> bool" where
  "js_strict_eq x y = (if x = NaN then False else if y = NaN then False else x = y)"

definition js_neq :: "jsnum \<Rightarrow> jsnum \<Rightarrow> bool" where
  "js_neq x y = (\<not> js_strict_eq x y)"

subsection \<open>\<open>x | 0\<close>: conversion to a signed 32-bit integer\<close>

definition js_trunc :: "rat \<Rightarrow> int" where
  "js_trunc q = (if 0 \<le> q then \<lfloor>q\<rfloor> else \<lceil>q\<rceil>)"

text \<open>
  \<open>ToInt32\<close>: \<open>NaN\<close> and the infinities give 0, a finite number is cut to its
  integer part and that is reduced modulo \<open>2^32\<close>.
\<close>

fun to_int32 :: "jsnum \<Rightarrow> 32 word" where
  "to_int32 (Fin q) = word_of_int (js_trunc q)"
| "to_int32 NaN = 0"
| "to_int32 PosInf = 0"
| "to_int32 NegInf = 0"

text \<open>The bitwise or of two numbers is a number again, read as two's complement.\<close>

definition js_bitor :: "jsnum \<Rightarrow> jsnum \<Rightarrow> jsnum" where
  "js_bitor x y = Fin (of_int (sint (to_int32 x OR to_int32 y)))"

subsection \<open>Conversion of a number to a string\<close>

definition digit_char :: "nat \<Rightarrow> char" where
  "digit_char d = ''0123456789'' ! d"

fun nat_digits :: "nat \<Rightarrow> string" where
  "nat_digits n =
     (if n < 10 then [digit_char n] else nat_digits (n div 10) @ [digit_char (n mod 10)])"

declare nat_digits.simps [simp del]

text \<open>
  \<open>Number::toString\<close> writes the shortest decimal \<open>s \<times> 10^(n - k)\<close>, \<open>s\<close> of \<open>k\<close>
  digits, that reads back as the same number.  For \<open>k\<close> digits only the two
  neighbours of \<open>x\<close> on the grid \<open>10^(n - k)\<close> can read back as \<open>x\<close>; the nearer one
  is taken, the even one on a tie.
\<close>

definition candidate :: "nat \<Rightarrow> rat \<Rightarrow> int \<Rightarrow> (nat \<times> int) option" where
  "candidate k x n =
     (let g = pow10 (n - int k);
          lo = \<lfloor>x / g\<rfloor>; hi = lo + 1;
          lo_ok = (rnd64 (of_int lo * g) = Fin x);
          hi_ok = (rnd64 (of_int hi * g) = Fin x);
          dl = x - of_int lo * g; dh = of_int hi * g - x;
          pick = (if lo_ok then
                    (if hi_ok then (if dl < dh then Some lo else if dh < dl then Some hi
                                    else if even lo then Some lo else Some hi)
                     else Some lo)
                  else if hi_ok then Some hi else None)
      in case pick of
           None \<Rightarrow> None
         | Some s \<Rightarrow> if s = 10 ^ k then Some (1, n + 1) else Some (nat s, n))"

text \<open>
  The search runs over \<open>k = 1, 2, \<dots>\<close>; 17 digits always suffice for a binary64
  value, so the search started with 17 steps ends in a \<open>candidate\<close>.
\<close>

fun shortest :: "nat \<Rightarrow> nat \<Rightarrow> rat \<Rightarrow> int \<Rightarrow> nat \<times> int" where
  "shortest 0 k x n = (nat \<lfloor>x / pow10 (n - int k)\<rfloor>, n)"
| "shortest (Suc fuel) k x n =
     (case candidate k x n of
        Some r \<Rightarrow> r
      | None \<Rightarrow> shortest fuel (Suc k) x n)"

definition layout :: "string \<Rightarrow> int \<Rightarrow> string" where
  "layout ds n =
     (let k = int (length ds) in
      if k \<le> n \<and> n \<le> 21 then ds @ replicate (nat (n - k)) CHR ''0''
      else if 0 < n \<and> n \<le> 21 then take (nat n) ds @ ''.'' @ drop (nat n) ds
      else if - 6 < n \<and> n \<le> 0 then ''0.'' @ replicate (nat (- n)) CHR ''0'' @ ds
      else (if k = 1 then ds else take 1 ds @ ''.'' @ drop 1 ds) @ ''e''
           @ (if 0 \<le> n - 1 then ''+'' else ''-'') @ nat_digits (nat \<bar>n - 1\<bar>))"

definition pos_to_string :: "rat \<Rightarrow> string" where
  "pos_to_string x =
     (case shortest 17 1 x (ilog 10 x + 1) of (s, n) \<Rightarrow> layout (nat_digits s) n)"

fun js_num_to_string :: "jsnum \<Rightarrow> string" where
  "js_num_to_string NaN = ''NaN''"
| "js_num_to_string PosInf = ''Infinity''"
| "js_num_to_string NegInf = ''-Infinity''"
| "js_num_to_string (Fin q) =
     (if q = 0 then ''0''
      else if q < 0 then ''-'' @ pos_to_string (- q)
      else pos_to_string q)"

section \<open>The element, the snapshot and the node\<close>

text \<open>
  The style object of the external element: a property name gives the property's text,
  the empty text for a property never set.  Every assignment to a property is also
  recorded, in order, so that a cycle's writes can be counted.
\<close>

type_synonym style = "string \<Rightarrow> string"

record html_element =
  elem_id :: string
  style :: style

type_synonym style_write = "string \<times> string"

definition set_style ::
  "string \<Rightarrow> string \<Rightarrow> html_element \<times> style_write list \<Rightarrow> html_element \<times> style_write list" where
  "set_style p v ew =
     (case ew of (el, ws) \<Rightarrow> (el\<lparr>style := (style el)(p := v)\<rparr>, ws @ [(p, v)]))"

record matrix2d =
  m_a :: jsnum
  m_b :: jsnum
  m_c :: jsnum
  m_d :: jsnum
  m_tx :: jsnum
  m_ty :: jsnum

record display_props =
  visible :: bool
  alpha :: jsnum
  matrix :: matrix2d

text \<open>
  Modelled from the spec: \<open>Matrix2D.equals\<close> (\<open>../geom/Matrix2D\<close> is not among
  the sources).  The snapshot's matrix is compared with the cached one ``using exact
  component equality'', which on JavaScript numbers is \<open>===\<close>.
\<close>

definition Matrix2D_equals :: "matrix2d \<Rightarrow> matrix2d \<Rightarrow> bool" where
  "Matrix2D_equals m1 m2 =
     (js_strict_eq (m_tx m1) (m_tx m2) \<and> js_strict_eq (m_ty m1) (m_ty m2) \<and>
      js_strict_eq (m_a m1) (m_a m2) \<and> js_strict_eq (m_b m1) (m_b m2) \<and>
      js_strict_eq (m_c m1) (m_c m2) \<and> js_strict_eq (m_d m1) (m_d m2))"

text \<open>
  Modelled from the spec: \<open>Matrix2D.copy\<close> (not among the sources).  The cached matrix
  is updated ``by value copy, not reference aliasing'': the target takes the six
  components of the argument.
\<close>

definition Matrix2D_copy :: "matrix2d \<Rightarrow> matrix2d \<Rightarrow> matrix2d" where
  "Matrix2D_copy target m =
     target\<lparr>m_a := m_a m, m_b := m_b m, m_c := m_c m, m_d := m_d m,
            m_tx := m_tx m, m_ty := m_ty m\<rparr>"

text \<open>
  Modelled from the spec: the matrix of a new \<open>DisplayProps\<close> (\<open>../geom/DisplayProps\<close>
  is not among the sources).  The cache ``starts empty'' and is ``replaced wholesale on
  first successful write'': \<open>_handleDrawEnd\<close> copies the snapshot's matrix over the
  new one at once, so that the identity taken here is never read.
\<close>

definition Matrix2D_identity :: matrix2d where
  "Matrix2D_identity =
     \<lparr>m_a = Fin 1, m_b = Fin 0, m_c = Fin 0, m_d = Fin 1, m_tx = Fin 0, m_ty = Fin 0\<rparr>"

text \<open>
  Modelled from the spec: the constructor \<open>DisplayProps(visible, alpha)\<close> (not among the
  sources), which holds the two arguments and a matrix of its own.
\<close>

definition DisplayProps_new :: "bool \<Rightarrow> jsnum \<Rightarrow> display_props" where
  "DisplayProps_new vis al = \<lparr>visible = vis, alpha = al, matrix = Matrix2D_identity\<rparr>"

text \<open>
  The node.  \<open>htmlElement\<close> is \<open>None\<close> when the property holds \<open>null\<close>;
  \<open>oldProps\<close> is the private \<open>_oldProps\<close>.  The element is held by value: the
  node's own writes are the only ones between two cycles.
\<close>

record dom_element =
  htmlElement :: "html_element option"
  mouseEnabled :: bool
  oldProps :: "display_props option"

datatype js_error = TypeError | Thrown string

text \<open>
  A call ends with the thrown error or the returned value, the node as the call left
  it, and the writes to the element's style that the call made.
\<close>

type_synonym 'r result = "(js_error + 'r) \<times> dom_element \<times> style_write list"

subsection \<open>Constructor\<close>

datatype element_arg = ElementRef html_element | ElementId string

definition DOMElement_new ::
  "(string \<Rightarrow> html_element option) \<Rightarrow> element_arg \<Rightarrow> js_error + dom_element \<times> style_write list" where
  "DOMElement_new document arg =
     (let resolved = (case arg of ElementId i \<Rightarrow> document i | ElementRef el \<Rightarrow> Some el) in
      case resolved of
        None \<Rightarrow> Inl TypeError
      | Some el \<Rightarrow>
          let ew = set_style ''position'' ''absolute'' (el, []);
              ew = set_style ''OTransformOrigin'' ''0% 0%'' ew;
              ew = set_style ''MozTransformOrigin'' ''0% 0%'' ew;
              ew = set_style ''msTransformOrigin'' ''0% 0%'' ew;
              ew = set_style ''WebkitTransformOrigin'' ''0% 0%'' ew;
              ew = set_style ''transformOrigin'' ''0% 0%'' ew
          in Inr (\<lparr>htmlElement = Some (fst ew), mouseEnabled = False, oldProps = None\<rparr>,
                  snd ew))"

subsection \<open>Public methods\<close>

definition isVisible :: "dom_element \<Rightarrow> bool" where
  "isVisible this = (htmlElement this \<noteq> None)"

definition draw :: "'ctx \<Rightarrow> bool \<Rightarrow> dom_element \<Rightarrow> bool result" where
  "draw ctx ignoreCache this = (Inr True, this, [])"

text \<open>
  The seven methods with an empty body.  A JavaScript function takes any number of
  arguments of any kind; they are the list \<open>args\<close>.
\<close>

definition cache :: "'arg list \<Rightarrow> dom_element \<Rightarrow> unit result" where
  "cache args this = (Inr (), this, [])"

definition uncache :: "'arg list \<Rightarrow> dom_element \<Rightarrow> unit result" where
  "uncache args this = (Inr (), this, [])"

definition updateCache :: "'arg list \<Rightarrow> dom_element \<Rightarrow> unit result" where
  "updateCache args this = (Inr (), this, [])"

definition hitTest :: "'arg list \<Rightarrow> dom_element \<Rightarrow> unit result" where
  "hitTest args this = (Inr (), this, [])"

definition localToGlobal :: "'arg list \<Rightarrow> dom_element \<Rightarrow> unit result" where
  "localToGlobal args this = (Inr (), this, [])"

definition globalToLocal :: "'arg list \<Rightarrow> dom_element \<Rightarrow> unit result" where
  "globalToLocal args this = (Inr (), this, [])"

definition localToLocal :: "'arg list \<Rightarrow> dom_element \<Rightarrow> unit result" where
  "localToLocal args this = (Inr (), this, [])"

definition clone :: "'arg list \<Rightarrow> dom_element \<Rightarrow> dom_element result" where
  "clone args this = (Inl (Thrown ''DOMElement cannot be cloned.''), this, [])"

subsection \<open>\<open>_handleDrawEnd\<close>\<close>

text \<open>The constant \<open>n = 10000\<close> and the two numeric expressions of the routine.\<close>

definition precision :: jsnum where
  "precision = js_lit 10000"

text \<open>\<open>(x*n|0)/n\<close>\<close>

definition scaled :: "jsnum \<Rightarrow> jsnum" where
  "scaled x = js_div (js_bitor (js_mul x precision) (js_lit 0)) precision"

text \<open>\<open>(x+0.5|0)\<close>\<close>

definition pixel :: "jsnum \<Rightarrow> jsnum" where
  "pixel x = js_bitor (js_add x (js_lit (1 / 2))) (js_lit 0)"

text \<open>The local \<open>str\<close>, and the two texts made from it.\<close>

definition matrix_str :: "matrix2d \<Rightarrow> string" where
  "matrix_str mtx =
     ''matrix('' @ js_num_to_string (scaled (m_a mtx)) @ '','' @
     js_num_to_string (scaled (m_b mtx)) @ '','' @
     js_num_to_string (scaled (m_c mtx)) @ '','' @
     js_num_to_string (scaled (m_d mtx)) @ '','' @
     js_num_to_string (pixel (m_tx mtx))"

definition transform_text :: "matrix2d \<Rightarrow> string" where
  "transform_text mtx = matrix_str mtx @ '','' @ js_num_to_string (pixel (m_ty mtx)) @ '')''"

definition moz_transform_text :: "matrix2d \<Rightarrow> string" where
  "moz_transform_text mtx =
     matrix_str mtx @ ''px,'' @ js_num_to_string (pixel (m_ty mtx)) @ ''px)''"

text \<open>
  The assignments of lines 210 and 211.  A chained assignment stores from right to
  left.
\<close>

definition write_transform ::
  "matrix2d \<Rightarrow> html_element \<times> style_write list \<Rightarrow> html_element \<times> style_write list" where
  "write_transform mtx ew =
     (let ew = set_style ''msTransform'' (transform_text mtx) ew;
          ew = set_style ''OTransform'' (transform_text mtx) ew;
          ew = set_style ''WebkitTransform'' (transform_text mtx) ew;
          ew = set_style ''transform'' (transform_text mtx) ew
      in set_style ''MozTransform'' (moz_transform_text mtx) ew)"

text \<open>
  \<open>props\<close> is the value of \<open>this.getConcatenatedDisplayProps(this._props)\<close>, a
  method of the base class.  Reading \<open>alpha\<close> of an absent \<open>oldProps\<close> is the
  \<open>TypeError\<close> branch.
\<close>

definition handleDrawEnd :: "display_props \<Rightarrow> dom_element \<Rightarrow> unit result" where
  "handleDrawEnd props this =
     (case htmlElement this of
        None \<Rightarrow> (Inr (), this, [])
      | Some el \<Rightarrow>
          let mtx = matrix props;
              visibility = (if visible props then ''visible'' else ''hidden'');
              ew = (if visibility \<noteq> style el ''visibility''
                    then set_style ''visibility'' visibility (el, []) else (el, []))
          in if \<not> visible props then (Inr (), this\<lparr>htmlElement := Some (fst ew)\<rparr>, snd ew)
             else
               let old = oldProps this;
                   oldMtx = map_option matrix old;
                   changed = (case oldMtx of None \<Rightarrow> True
                              | Some m \<Rightarrow> \<not> Matrix2D_equals m mtx);
                   ew = (if changed then write_transform mtx ew else ew);
                   old = (if changed
                          then (case (case old of None \<Rightarrow> DisplayProps_new True NaN
                                      | Some p \<Rightarrow> p) of
                                  p \<Rightarrow> Some (p\<lparr>matrix := Matrix2D_copy (matrix p) mtx\<rparr>))
                          else old)
               in (case old of
                     None \<Rightarrow>
                       (Inl TypeError, this\<lparr>htmlElement := Some (fst ew)\<rparr>, snd ew)
                   | Some p \<Rightarrow>
                       if js_neq (alpha p) (alpha props)
                       then
                         let ew = set_style ''opacity''
                                    (js_num_to_string (scaled (alpha props))) ew
                         in (Inr (),
                             this\<lparr>htmlElement := Some (fst ew),
                                  oldProps := Some (p\<lparr>alpha := alpha props\<rparr>)\<rparr>,
                             snd ew)
                       else (Inr (),
                             this\<lparr>htmlElement := Some (fst ew), oldProps := Some p\<rparr>,
                             snd ew)))"

subsection \<open>\<open>_tick\<close> and the stage's ``drawend'' signal\<close>

text \<open>
  The stage and its event dispatcher are not among the sources.  The stage keeps, for
  each event type, its subscriptions in subscription order; a subscription names the node
  whose \<open>_handleDrawEnd\<close> it runs and whether it is dropped after it has run once.
\<close>

type_synonym node_id = nat

record listener =
  scope :: node_id
  once :: bool

type_synonym stage = "string \<Rightarrow> listener list"

text \<open>
  Modelled from the spec: \<open>stage.on(type, listener, scope, once)\<close> (not among the
  sources).  The registration ``must support fire once per cycle, synchronous,
  at-most-once registration per subscriber'': subscribing a node that is subscribed
  already changes nothing.
\<close>

definition stage_on :: "stage \<Rightarrow> string \<Rightarrow> node_id \<Rightarrow> bool \<Rightarrow> stage" where
  "stage_on st type subscriber one_time =
     (if subscriber \<in> set (map scope (st type)) then st
      else st(type := st type @ [\<lparr>scope = subscriber, once = one_time\<rparr>]))"

text \<open>
  Modelled from the spec: the stage's dispatch of an event (not among the sources).  The
  handlers ``run in subscription order'', synchronously; a one-time subscription is
  dropped when it has run.  The result is the nodes whose handler ran, in order, and the
  stage after it.
\<close>

definition stage_dispatch :: "stage \<Rightarrow> string \<Rightarrow> node_id list \<times> stage" where
  "stage_dispatch st type =
     (map scope (st type), st(type := filter (\<lambda>l. \<not> once l) (st type)))"

text \<open>
  \<open>_tick\<close> of the node \<open>self\<close>.  \<open>stage\<close> is the value of the getter
  \<open>this.stage\<close>, \<open>None\<close> for a node attached to no stage; \<open>super_tick\<close> is
  \<open>_tick\<close> of the base class, which works on the node.
\<close>

definition tick ::
  "('evt \<Rightarrow> dom_element \<Rightarrow> dom_element) \<Rightarrow> node_id \<Rightarrow> 'evt \<Rightarrow> stage option \<times> dom_element
     \<Rightarrow> stage option \<times> dom_element" where
  "tick super_tick self evtObj sn =
     (case sn of (stage, this) \<Rightarrow>
        ((case stage of None \<Rightarrow> None
          | Some st \<Rightarrow> Some (stage_on st ''drawend'' self True)),
         super_tick evtObj this))"

section \<open>Reading a result\<close>

definition outcome :: "'r result \<Rightarrow> js_error + 'r" where
  "outcome res = fst res"

definition node :: "'r result \<Rightarrow> dom_element" where
  "node res = fst (snd res)"

definition writes :: "'r result \<Rightarrow> style_write list" where
  "writes res = snd (snd res)"

text \<open>The texts assigned to the property \<open>p\<close>, in order.\<close>

definition written :: "string \<Rightarrow> style_write list \<Rightarrow> string list" where
  "written p ws = map snd (filter (\<lambda>w. fst w = p) ws)"

text \<open>The phases of \<open>_handleDrawEnd\<close> for a bound element and a visible snapshot.\<close>

definition matrix_changed :: "display_props option \<Rightarrow> matrix2d \<Rightarrow> bool" where
  "matrix_changed old mtx =
     (case old of None \<Rightarrow> True | Some p \<Rightarrow> \<not> Matrix2D_equals (matrix p) mtx)"

definition opacity_changed :: "display_props option \<Rightarrow> jsnum \<Rightarrow> bool" where
  "opacity_changed old al = (case old of None \<Rightarrow> True | Some p \<Rightarrow> js_neq (alpha p) al)"

definition after_visibility :: "html_element \<Rightarrow> string \<Rightarrow> html_element \<times> style_write list" where
  "after_visibility el v =
     (if v \<noteq> style el ''visibility'' then set_style ''visibility'' v (el, []) else (el, []))"

definition after_transform ::
  "display_props option \<Rightarrow> matrix2d \<Rightarrow> html_element \<times> style_write list
     \<Rightarrow> html_element \<times> style_write list" where
  "after_transform old mtx ew = (if matrix_changed old mtx then write_transform mtx ew else ew)"

definition after_opacity ::
  "display_props option \<Rightarrow> jsnum \<Rightarrow> html_element \<times> style_write list
     \<Rightarrow> html_element \<times> style_write list" where
  "after_opacity old al ew =
     (if opacity_changed old al then set_style ''opacity'' (js_num_to_string (scaled al)) ew
      else ew)"

definition cache_after :: "display_props option \<Rightarrow> display_props \<Rightarrow> display_props" where
  "cache_after old props =
     (case old of
        None \<Rightarrow> \<lparr>visible = True, alpha = alpha props, matrix = matrix props\<rparr>
      | Some p \<Rightarrow> p\<lparr>alpha := alpha props, matrix := matrix props\<rparr>)"

section \<open>Notions of the specification\<close>

text \<open>Truncation toward zero: the integer of the same sign whose size is the floor of the size.\<close>

definition trunc_toward_zero :: "rat \<Rightarrow> int" where
  "trunc_toward_zero q = (if q < 0 then - \<lfloor>\<bar>q\<bar>\<rfloor> else \<lfloor>\<bar>q\<bar>\<rfloor>)"

definition int32_range :: "int \<Rightarrow> bool" where
  "int32_range i = (- (2 ^ 31) \<le> i \<and> i < 2 ^ 31)"

text \<open>``Adding 0.5 and then truncating toward zero'', where the sum is finite.\<close>

definition add_half_truncate :: "jsnum \<Rightarrow> int option" where
  "add_half_truncate x =
     (case js_add x (js_lit (1 / 2)) of Fin u \<Rightarrow> Some (trunc_toward_zero u) | _ \<Rightarrow> None)"

text \<open>``Multiply by 10000, truncate to integer'', where the product is finite.\<close>

definition scale_truncate :: "jsnum \<Rightarrow> int option" where
  "scale_truncate x =
     (case js_mul x (js_lit 10000) of Fin u \<Rightarrow> Some (trunc_toward_zero u) | _ \<Rightarrow> None)"

text \<open>``Divide by 10000'', and the text of the quotient.\<close>

definition fixed4_text :: "int \<Rightarrow> string" where
  "fixed4_text k = js_num_to_string (js_div (Fin (of_int k)) (js_lit 10000))"

text \<open>
  The text \<open>t\<close> formats the number \<open>x\<close> by truncation to four decimal digits: where
  \<open>x\<close> times 10000 is finite and its truncation toward zero lies in the signed 32-bit
  range, \<open>t\<close> is the text of that integer divided by 10000.  Of any other \<open>x\<close> nothing
  is required.
\<close>

definition truncated4 :: "jsnum \<Rightarrow> string \<Rightarrow> bool" where
  "truncated4 x t =
     (case scale_truncate x of
        None \<Rightarrow> True
      | Some k \<Rightarrow> if int32_range k then t = fixed4_text k else True)"

text \<open>The decimal numeral of an integer.\<close>

definition decimal :: "int \<Rightarrow> string" where
  "decimal i = (if i < 0 then ''-'' @ nat_digits (nat (- i)) else nat_digits (nat i))"

text \<open>The text \<open>str\<close> up to the translation, with the linear components as the code formats them.\<close>

definition linear_text :: "matrix2d \<Rightarrow> string" where
  "linear_text mtx =
     ''matrix('' @ js_num_to_string (scaled (m_a mtx)) @ '','' @
     js_num_to_string (scaled (m_b mtx)) @ '','' @
     js_num_to_string (scaled (m_c mtx)) @ '','' @
     js_num_to_string (scaled (m_d mtx)) @ '',''"

text \<open>The text \<open>str\<close> from the translation on, with the translation as the code formats it.\<close>

definition translation_text :: "matrix2d \<Rightarrow> string" where
  "translation_text mtx =
     js_num_to_string (pixel (m_tx mtx)) @ '','' @ js_num_to_string (pixel (m_ty mtx)) @ '')''"

text \<open>The same for \<open>MozTransform\<close>, where the translation carries the unit \<open>px\<close>.\<close>

definition moz_translation_text :: "matrix2d \<Rightarrow> string" where
  "moz_translation_text mtx =
     js_num_to_string (pixel (m_tx mtx)) @ ''px,'' @ js_num_to_string (pixel (m_ty mtx)) @ ''px)''"

definition no_nan :: "display_props \<Rightarrow> bool" where
  "no_nan props =
     (m_a (matrix props) \<noteq> NaN \<and> m_b (matrix props) \<noteq> NaN \<and> m_c (matrix props) \<noteq> NaN \<and>
      m_d (matrix props) \<noteq> NaN \<and> m_tx (matrix props) \<noteq> NaN \<and> m_ty (matrix props) \<noteq> NaN \<and>
      alpha props \<noteq> NaN)"

text \<open>The seven methods without a body, as calls.\<close>

datatype 'arg stub_call =
    Cache "'arg list"
  | Uncache "'arg list"
  | UpdateCache "'arg list"
  | HitTest "'arg list"
  | LocalToGlobal "'arg list"
  | GlobalToLocal "'arg list"
  | LocalToLocal "'arg list"

fun invoke :: "'arg stub_call \<Rightarrow> dom_element \<Rightarrow> unit result" where
  "invoke (Cache args) this = cache args this"
| "invoke (Uncache args) this = uncache args this"
| "invoke (UpdateCache args) this = updateCache args this"
| "invoke (HitTest args) this = hitTest args this"
| "invoke (LocalToGlobal args) this = localToGlobal args this"
| "invoke (GlobalToLocal args) this = globalToLocal args this"
| "invoke (LocalToLocal args) this = localToLocal args this"

text \<open>
  A sequence of calls on one node: a thrown error ends it; the writes of the calls
  accumulate.
\<close>

fun invoke_all :: "'arg stub_call list \<Rightarrow> dom_element \<Rightarrow> unit result" where
  "invoke_all [] this = (Inr (), this, [])"
| "invoke_all (c # cs) this =
     (case invoke c this of
        (Inl e, this', ws) \<Rightarrow> (Inl e, this', ws)
      | (Inr u, this', ws) \<Rightarrow>
          (case invoke_all cs this' of (r, this'', ws') \<Rightarrow> (r, this'', ws @ ws')))"

section \<open>Examples\<close>

definition ex_element :: html_element where
  "ex_element = \<lparr>elem_id = ''tip'', style = (\<lambda>p. [])\<rparr>"

definition ex_node :: dom_element where
  "ex_node = \<lparr>htmlElement = Some ex_element, mouseEnabled = False, oldProps = None\<rparr>"

definition ex_unbound :: dom_element where
  "ex_unbound = \<lparr>htmlElement = None, mouseEnabled = False, oldProps = None\<rparr>"

definition ex_matrix :: "jsnum \<Rightarrow> jsnum \<Rightarrow> jsnum \<Rightarrow> jsnum \<Rightarrow> matrix2d" where
  "ex_matrix sx sk x y =
     \<lparr>m_a = sx, m_b = sk, m_c = Fin 0, m_d = Fin 1, m_tx = x, m_ty = y\<rparr>"

definition ex_props :: "bool \<Rightarrow> jsnum \<Rightarrow> matrix2d \<Rightarrow> display_props" where
  "ex_props vis al mtx = \<lparr>visible = vis, alpha = al, matrix = mtx\<rparr>"

text \<open>The numbers of the examples, as the literals \<open>3.7\<close>, \<open>-2.2\<close>, \<open>3e9\<close>,
  \<open>300000\<close>, \<open>0.99999\<close>, \<open>-1.23456789\<close>, \<open>0.5\<close> and \<open>0.50001\<close>.\<close>

definition ex_3_7 :: jsnum where
  "ex_3_7 = js_lit (37 / 10)"

definition ex_minus_2_2 :: jsnum where
  "ex_minus_2_2 = js_lit (- 22 / 10)"

definition ex_3e9 :: jsnum where
  "ex_3e9 = js_lit 3000000000"

definition ex_3e5 :: jsnum where
  "ex_3e5 = js_lit 300000"

definition ex_0_99999 :: jsnum where
  "ex_0_99999 = js_lit (99999 / 100000)"

definition ex_minus_1_23456789 :: jsnum where
  "ex_minus_1_23456789 = js_lit (- 123456789 / 100000000)"

definition ex_half :: jsnum where
  "ex_half = js_lit (1 / 2)"

definition ex_0_50001 :: jsnum where
  "ex_0_50001 = js_lit (50001 / 100000)"

section \<open>Evaluation of the number model\<close>

lemma floorlog_0: "floorlog b 0 = 0"
  by (simp add: floorlog_def)

lemma floorlog_step: "0 < x \<Longrightarrow> 1 < b \<Longrightarrow> floorlog b x = floorlog b (x div b) + 1"
  by (subst compute_floorlog) simp

lemma floor_num_div: "\<lfloor>numeral a / numeral b :: rat\<rfloor> = numeral a div numeral b"
  using floor_divide_of_int_eq [of "numeral a" "numeral b", where ?'a = rat] by simp

lemma floor_neg_num_div: "\<lfloor>- (numeral a / numeral b) :: rat\<rfloor> = - numeral a div numeral b"
  using floor_divide_of_int_eq [of "- numeral a" "numeral b", where ?'a = rat] by simp

lemma ceiling_num_div: "\<lceil>numeral a / numeral b :: rat\<rceil> = - (- numeral a div numeral b)"
  by (simp add: ceiling_def floor_neg_num_div)

lemma ceiling_neg_num_div: "\<lceil>- (numeral a / numeral b) :: rat\<rceil> = - (numeral a div numeral b)"
  by (simp add: ceiling_def floor_num_div)

lemma floor_one_div: "\<lfloor>1 / numeral b :: rat\<rfloor> = 1 div numeral b"
  using floor_divide_of_int_eq [of 1 "numeral b", where ?'a = rat] by simp

lemma floor_neg_one_div: "\<lfloor>- (1 / numeral b) :: rat\<rfloor> = - 1 div numeral b"
  using floor_divide_of_int_eq [of "- 1" "numeral b", where ?'a = rat] by simp

lemma ceiling_one_div: "\<lceil>1 / numeral b :: rat\<rceil> = - (- 1 div numeral b)"
  by (simp add: ceiling_def floor_neg_one_div)

lemma ceiling_neg_one_div: "\<lceil>- (1 / numeral b) :: rat\<rceil> = - (1 div numeral b)"
  by (simp add: ceiling_def floor_one_div)

lemma replicate_step: "0 < n \<Longrightarrow> replicate n x = x # replicate (n - 1) x"
  by (cases n) simp_all

lemma shortest_unfold:
  "shortest fuel k x n =
     (case fuel of
        0 \<Rightarrow> (nat \<lfloor>x / pow10 (n - int k)\<rfloor>, n)
      | Suc f \<Rightarrow> (case candidate k x n of Some r \<Rightarrow> r | None \<Rightarrow> shortest f (Suc k) x n))"
  by (cases fuel) simp_all

lemmas num_eval = rnd64_def ilog_def pow2_def pow10_def round_ties_even_def Let_def
  floorlog_0 floorlog_step js_lit_def floor_num_div floor_neg_num_div
  ceiling_num_div ceiling_neg_num_div floor_one_div floor_neg_one_div
  ceiling_one_div ceiling_neg_one_div

lemmas str_eval = num_eval candidate_def shortest_unfold layout_def pos_to_string_def
  nat_digits.simps digit_char_def replicate_step

lemma js_lit_0: "js_lit 0 = Fin 0"
  by (simp add: js_lit_def rnd64_def)

lemma js_lit_1: "js_lit 1 = Fin 1"
  by (simp add: num_eval)

lemma js_lit_half: "js_lit (1 / 2) = Fin (1 / 2)"
  by (simp add: num_eval)

lemma js_lit_10000: "js_lit 10000 = Fin 10000"
  by (simp add: num_eval)

lemma precision_eq: "precision = Fin 10000"
  by (simp add: precision_def js_lit_10000)

section \<open>\<open>x | 0\<close> within and beyond 32 bits\<close>

lemma js_trunc_eq: "js_trunc q = trunc_toward_zero q"
  by (simp add: js_trunc_def trunc_toward_zero_def ceiling_def)

lemma sint_word32:
  "sint (word_of_int x :: 32 word) = (x + 2147483648) mod 4294967296 - 2147483648"
  by (simp add: int_word_sint)

lemma js_bitor_zero:
  "js_bitor (Fin q) (Fin 0) =
     Fin (of_int ((trunc_toward_zero q + 2147483648) mod 4294967296 - 2147483648))"
proof -
  have "to_int32 (Fin q) OR to_int32 (Fin 0) = (word_of_int (trunc_toward_zero q) :: 32 word)"
    by (simp add: js_trunc_eq trunc_toward_zero_def)
  then show ?thesis
    by (simp only: js_bitor_def sint_word32)
qed

lemma js_bitor_nan: "js_bitor NaN (Fin 0) = Fin 0"
  by (simp add: js_bitor_def js_trunc_def)

lemma js_bitor_zero_in_range:
  assumes "int32_range (trunc_toward_zero q)"
  shows "js_bitor (Fin q) (js_lit 0) = Fin (of_int (trunc_toward_zero q))"
proof -
  from assms have "(trunc_toward_zero q + 2147483648) mod 4294967296 = trunc_toward_zero q + 2147483648"
    by (simp add: int32_range_def)
  then show ?thesis
    by (simp add: js_lit_0 js_bitor_zero)
qed

lemma pixel_in_range:
  assumes "add_half_truncate x = Some i" and "int32_range i"
  shows "pixel x = Fin (of_int i)"
proof -
  from assms(1) obtain u where u: "js_add x (js_lit (1 / 2)) = Fin u" and i: "i = trunc_toward_zero u"
    by (auto simp: add_half_truncate_def split: jsnum.splits)
  from assms(2) i have "int32_range (trunc_toward_zero u)"
    by simp
  then have "js_bitor (Fin u) (js_lit 0) = Fin (of_int (trunc_toward_zero u))"
    by (rule js_bitor_zero_in_range)
  with u i show ?thesis
    by (simp add: pixel_def)
qed

lemma scaled_in_range:
  assumes "scale_truncate x = Some k" and "int32_range k"
  shows "js_num_to_string (scaled x) = fixed4_text k"
proof -
  from assms(1) obtain u where u: "js_mul x (js_lit 10000) = Fin u" and k: "k = trunc_toward_zero u"
    by (auto simp: scale_truncate_def split: jsnum.splits)
  from assms(2) k have "int32_range (trunc_toward_zero u)"
    by simp
  then have "js_bitor (Fin u) (js_lit 0) = Fin (of_int (trunc_toward_zero u))"
    by (rule js_bitor_zero_in_range)
  with u k show ?thesis
    by (simp add: scaled_def precision_def fixed4_text_def)
qed

section \<open>The result of \<open>_handleDrawEnd\<close>\<close>

lemma Matrix2D_copy_eq: "Matrix2D_copy target m = m"
  by (cases target, cases m) (simp add: Matrix2D_copy_def)

lemma Matrix2D_equals_eq: "Matrix2D_equals m1 m2 \<Longrightarrow> m1 = m2"
  by (cases m1, cases m2) (auto simp: Matrix2D_equals_def js_strict_eq_def split: if_splits)

lemma js_strict_eq_refl: "x \<noteq> NaN \<Longrightarrow> js_strict_eq x x"
  by (simp add: js_strict_eq_def)

lemma js_neq_eq: "\<not> js_neq x y \<Longrightarrow> x = y"
  by (auto simp: js_neq_def js_strict_eq_def split: if_splits)

lemma handleDrawEnd_unbound:
  "htmlElement this = None \<Longrightarrow> handleDrawEnd props this = (Inr (), this, [])"
  by (simp add: handleDrawEnd_def)

lemma handleDrawEnd_hidden:
  assumes "htmlElement this = Some el" and "\<not> visible props"
  shows "handleDrawEnd props this =
     (Inr (), this\<lparr>htmlElement := Some (fst (after_visibility el ''hidden''))\<rparr>,
      snd (after_visibility el ''hidden''))"
  using assms by (simp add: handleDrawEnd_def after_visibility_def Let_def)

lemma handleDrawEnd_visible:
  assumes "htmlElement this = Some el" and "visible props"
  shows "handleDrawEnd props this =
     (Inr (),
      this\<lparr>htmlElement :=
             Some (fst (after_opacity (oldProps this) (alpha props)
                     (after_transform (oldProps this) (matrix props)
                        (after_visibility el ''visible'')))),
           oldProps := Some (cache_after (oldProps this) props)\<rparr>,
      snd (after_opacity (oldProps this) (alpha props)
             (after_transform (oldProps this) (matrix props)
                (after_visibility el ''visible''))))"
proof (cases "oldProps this")
  case None
  have "js_neq (alpha (DisplayProps_new True NaN)) (alpha props)"
    by (simp add: DisplayProps_new_def js_neq_def js_strict_eq_def)
  with assms None show ?thesis
    by (simp add: handleDrawEnd_def Let_def after_transform_def after_visibility_def
        after_opacity_def opacity_changed_def cache_after_def matrix_changed_def
        Matrix2D_copy_eq DisplayProps_new_def)
next
  case (Some p)
  have cache:
    "cache_after (Some p) props =
       (if Matrix2D_equals (matrix p) (matrix props)
        then (if js_neq (alpha p) (alpha props) then p\<lparr>alpha := alpha props\<rparr> else p)
        else (if js_neq (alpha p) (alpha props)
              then p\<lparr>matrix := matrix props, alpha := alpha props\<rparr>
              else p\<lparr>matrix := matrix props\<rparr>))"
    by (cases p) (auto simp: cache_after_def dest: js_neq_eq Matrix2D_equals_eq)
  from assms Some show ?thesis
    by (simp add: handleDrawEnd_def Let_def after_transform_def after_visibility_def
        after_opacity_def opacity_changed_def cache matrix_changed_def Matrix2D_copy_eq)
qed

section \<open>The text of a 32-bit integer\<close>

lemma round_ties_even_of_int: "round_ties_even (of_int z) = z"
  by (simp add: round_ties_even_def)

lemma floorlog_le_53: "j < 2 ^ 53 \<Longrightarrow> floorlog 2 j \<le> 53"
  by (rule floorlog_leI) simp_all

lemma rnd64_int:
  assumes "0 < j" and "j < 2 ^ 53"
  shows "rnd64 (of_int j) = Fin (of_int j)"
proof -
  define L where "L = floorlog 2 (nat j)"
  from assms have "nat j < 2 ^ 53"
    by (simp add: nat_less_iff)
  then have L53: "L \<le> 53"
    unfolding L_def by (rule floorlog_le_53)
  from assms have L1: "1 \<le> L"
    unfolding L_def by (simp add: floorlog_def)
  from assms have e: "ilog 2 (of_int j) = int L - 1"
    by (simp add: ilog_def L_def)
  from L1 have m: "max (int L - 1) (- 1022) = int L - 1"
    by simp
  from L1 L53 have u: "pow2 (int L - 1 - 52) = 1 / 2 ^ (53 - L)"
    by (cases "L = 53") (auto simp: pow2_def nat_diff_distrib)
  have "of_int j / (1 / 2 ^ (53 - L)) = (of_int (j * 2 ^ (53 - L)) :: rat)"
    by simp
  then have r: "round_ties_even (of_int j / (1 / 2 ^ (53 - L))) = j * 2 ^ (53 - L)"
    by (simp only: round_ties_even_of_int)
  have restore: "(of_int (j * 2 ^ (53 - L)) :: rat) * (1 / 2 ^ (53 - L)) = of_int j"
    by simp
  from assms have small: "\<not> pow2 1024 \<le> \<bar>of_int j :: rat\<bar>"
  proof -
    from assms have "(of_int j :: rat) < of_int (2 ^ 53)"
      by (simp only: of_int_less_iff)
    also have "(of_int (2 ^ 53) :: rat) < 2 ^ 1024"
      by simp
    finally show ?thesis
      using assms by (simp add: pow2_def)
  qed
  from assms have nz: "(of_int j :: rat) \<noteq> 0"
    by simp
  show ?thesis
    unfolding rnd64_def Let_def e m u r restore
    using nz small by simp
qed

lemma digit_char_0: "digit_char 0 = CHR ''0''"
  by (simp add: digit_char_def)

lemma nat_digits_times_10: "0 < t \<Longrightarrow> nat_digits (t * 10) = nat_digits t @ ''0''"
  by (subst nat_digits.simps) (simp add: digit_char_0)

lemma nat_digits_shift:
  "0 < s \<Longrightarrow> nat_digits (s * 10 ^ j) = nat_digits s @ replicate j CHR ''0''"
proof (induction j)
  case 0
  show ?case by simp
next
  case (Suc j)
  from Suc.prems have "0 < s * 10 ^ j"
    by simp
  then have "nat_digits (s * 10 ^ j * 10) = nat_digits (s * 10 ^ j) @ ''0''"
    by (rule nat_digits_times_10)
  also from Suc have "\<dots> = nat_digits s @ replicate j CHR ''0'' @ ''0''"
    by simp
  also have "\<dots> = nat_digits s @ replicate (Suc j) CHR ''0''"
    by (simp add: replicate_append_same)
  finally show ?case
    by (simp only: power_Suc2 mult.assoc)
qed

lemma length_nat_digits: "0 < s \<Longrightarrow> length (nat_digits s) = floorlog 10 s"
proof (induction s rule: nat_digits.induct)
  case (1 n)
  show ?case
  proof (cases "n < 10")
    case True
    with "1.prems" have "floorlog 10 n = 1"
      by (subst compute_floorlog) (simp add: floorlog_def)
    with True show ?thesis
      by (subst nat_digits.simps) simp
  next
    case False
    then have "0 < n div 10"
      by simp
    with False "1.IH" have "length (nat_digits (n div 10)) = floorlog 10 (n div 10)"
      by simp
    moreover from "1.prems" have "floorlog 10 n = floorlog 10 (n div 10) + 1"
      by (subst compute_floorlog) simp
    ultimately show ?thesis
      using False by (subst nat_digits.simps) simp
  qed
qed

lemma layout_integer:
  assumes "0 < s" and "floorlog 10 s + j \<le> 21"
  shows "layout (nat_digits s) (int (floorlog 10 s + j)) = nat_digits (s * 10 ^ j)"
  using assms by (simp add: layout_def length_nat_digits nat_digits_shift)

lemma candidate_integer:
  assumes "0 < m" and "D = floorlog 10 m" and "1 \<le> k" and "k \<le> D" and "D \<le> 15"
  shows "candidate k (of_nat m) (int D) =
     (if 10 ^ (D - k) dvd m then Some (m div 10 ^ (D - k), int D) else None)"
proof -
  define G :: nat where "G = 10 ^ (D - k)"
  define lo where "lo = m div G"
  have Gpos: "0 < G"
    by (simp add: G_def)
  from assms(1,2) have lower: "10 ^ (D - 1) \<le> m" and upper: "m < 10 ^ D"
    using floorlog_bounds [of m 10] by simp_all
  from assms(5) have "(10 :: nat) ^ D \<le> 10 ^ 15"
    by (intro power_increasing) simp_all
  then have big: "(10 :: nat) ^ D < 2 ^ 53"
    by simp
  from assms(3,4) have "G \<le> 10 ^ (D - 1)"
    unfolding G_def by (intro power_increasing) simp_all
  with lower have "G \<le> m"
    by simp
  with Gpos have lo_pos: "0 < lo"
    by (simp add: lo_def div_greater_zero_iff)
  have lo_le: "lo * G \<le> m"
    by (simp add: lo_def)
  have hi_gt: "m < (lo + 1) * G"
    using Gpos by (simp add: lo_def) (metis dividend_less_div_times)
  from assms(4) have "10 ^ D = 10 ^ k * G"
    by (simp add: G_def flip: power_add)
  with upper have "m < 10 ^ k * G"
    by simp
  then have lo_lt: "lo < 10 ^ k"
    using Gpos by (simp add: lo_def less_mult_imp_div_less)
  then have "lo + 1 \<le> 10 ^ k"
    by simp
  then have "(lo + 1) * G \<le> 10 ^ k * G"
    by (rule mult_le_mono1)
  with \<open>10 ^ D = 10 ^ k * G\<close> have hi_le: "(lo + 1) * G \<le> 10 ^ D"
    by simp
  have g: "pow10 (int D - int k) = of_nat G"
    using assms(4) by (simp add: pow10_def G_def nat_diff_distrib)
  have fl: "\<lfloor>(of_nat m :: rat) / of_nat G\<rfloor> = int lo"
    by (simp add: floor_divide_of_nat_eq lo_def)
  have lo_exact: "rnd64 (of_int (int lo) * of_nat G) = Fin (of_nat (lo * G))"
  proof -
    from lo_pos Gpos have "0 < lo * G"
      by simp
    then have "0 < int (lo * G)"
      by (simp only: of_nat_0_less_iff)
    moreover from lo_le upper big have "int (lo * G) < 2 ^ 53"
      by (metis le_less_trans less_trans of_nat_less_iff of_nat_numeral of_nat_power)
    ultimately have "rnd64 (of_int (int (lo * G))) = Fin (of_int (int (lo * G)))"
      by (rule rnd64_int)
    then show ?thesis
      by simp
  qed
  have hi_exact: "rnd64 (of_int (int lo + 1) * of_nat G) = Fin (of_nat ((lo + 1) * G))"
  proof -
    from Gpos have "0 < (lo + 1) * G"
      by simp
    then have "0 < int ((lo + 1) * G)"
      by (simp only: of_nat_0_less_iff)
    moreover from hi_le big have "int ((lo + 1) * G) < 2 ^ 53"
      by (metis le_less_trans of_nat_less_iff of_nat_numeral of_nat_power)
    ultimately have "rnd64 (of_int (int ((lo + 1) * G))) = Fin (of_int (int ((lo + 1) * G)))"
      by (rule rnd64_int)
    then show ?thesis
      by (simp add: algebra_simps)
  qed
  have lo_ok: "(Fin (of_nat (lo * G)) = Fin (of_nat m :: rat)) = (G dvd m)"
  proof -
    have "(lo * G = m) = (G dvd m)"
      unfolding lo_def by (metis dvd_div_mult_self dvd_triv_right)
    then show ?thesis
      by (simp only: jsnum.inject of_nat_eq_iff)
  qed
  have hi_ok: "Fin (of_nat ((lo + 1) * G)) \<noteq> Fin (of_nat m :: rat)"
    using hi_gt by (simp only: jsnum.inject of_nat_eq_iff)
  from lo_lt have ne: "int lo \<noteq> 10 ^ k"
    by (metis less_irrefl of_nat_eq_iff of_nat_numeral of_nat_power)
  show ?thesis
    unfolding candidate_def Let_def g fl lo_exact hi_exact lo_ok
    using hi_ok ne by (simp add: G_def lo_def)
qed

lemma shortest_integer:
  assumes "0 < m" and "D = floorlog 10 m" and "D \<le> 15"
  shows "1 \<le> k \<Longrightarrow> k \<le> D \<Longrightarrow> D - k < fuel \<Longrightarrow>
     (case shortest fuel k (of_nat m) (int D) of (s, n) \<Rightarrow> layout (nat_digits s) n) = nat_digits m"
proof (induction fuel arbitrary: k)
  case 0
  then show ?case by simp
next
  case (Suc fuel)
  from assms(1,2) Suc.prems(1,2) assms(3)
  have c: "candidate k (of_nat m) (int D) =
     (if 10 ^ (D - k) dvd m then Some (m div 10 ^ (D - k), int D) else None)"
    by (rule candidate_integer)
  show ?case
  proof (cases "10 ^ (D - k) dvd m")
    case True
    define s where "s = m div 10 ^ (D - k)"
    from True have m: "m = s * 10 ^ (D - k)"
      by (simp add: s_def)
    with assms(1) have s: "0 < s"
      by (cases "s = 0") simp_all
    from s have "floorlog 10 (s * 10 ^ (D - k)) = floorlog 10 s + (D - k)"
      by (rule floorlog_power) simp
    with m assms(2) have D: "D = floorlog 10 s + (D - k)"
      by simp
    with assms(3) have "floorlog 10 s + (D - k) \<le> 21"
      by simp
    with s have "layout (nat_digits s) (int (floorlog 10 s + (D - k))) = nat_digits (s * 10 ^ (D - k))"
      by (rule layout_integer)
    with D m have "layout (nat_digits s) (int D) = nat_digits m"
      by simp
    with c True show ?thesis
      by (simp add: s_def)
  next
    case False
    then have "k \<noteq> D"
      by auto
    with Suc.prems have "1 \<le> Suc k" and "Suc k \<le> D" and "D - Suc k < fuel"
      by simp_all
    then have "(case shortest fuel (Suc k) (of_nat m) (int D) of (s, n) \<Rightarrow> layout (nat_digits s) n) =
        nat_digits m"
      by (rule Suc.IH)
    with c False show ?thesis
      by simp
  qed
qed

lemma pos_to_string_integer:
  assumes "0 < m" and "m < 10 ^ 15"
  shows "pos_to_string (of_nat m) = nat_digits m"
proof -
  define D where "D = floorlog 10 m"
  from assms(2) have D15: "D \<le> 15"
    unfolding D_def by (intro floorlog_leI) simp_all
  from assms(1) have D1: "1 \<le> D"
    by (simp add: D_def floorlog_def)
  from assms(1) have "ilog 10 (of_nat m) + 1 = int D"
    by (simp add: ilog_def D_def)
  moreover from D1 D15 have "D - 1 < 17"
    by simp
  with assms(1) D_def D15 have
    "(case shortest 17 1 (of_nat m) (int D) of (s, n) \<Rightarrow> layout (nat_digits s) n) = nat_digits m"
    using D1 by (intro shortest_integer) simp_all
  ultimately show ?thesis
    by (simp add: pos_to_string_def)
qed

lemma num_to_string_int32:
  assumes "int32_range i"
  shows "js_num_to_string (Fin (of_int i)) = decimal i"
proof (cases "i = 0")
  case True
  have "nat_digits 0 = ''0''"
    by (subst nat_digits.simps) (simp add: digit_char_def)
  with True show ?thesis
    by (simp add: decimal_def)
next
  case False
  show ?thesis
  proof (cases "0 < i")
    case True
    with assms have "nat i < 10 ^ 15"
      by (simp add: int32_range_def nat_less_iff)
    with True have "pos_to_string (of_nat (nat i)) = nat_digits (nat i)"
      by (intro pos_to_string_integer) simp_all
    with True show ?thesis
      by (simp add: decimal_def)
  next
    case neg: False
    with False have n: "i < 0"
      by simp
    with assms have "nat (- i) < 10 ^ 15"
      by (simp add: int32_range_def nat_less_iff)
    with n have "pos_to_string (of_nat (nat (- i))) = nat_digits (nat (- i))"
      by (intro pos_to_string_integer) simp_all
    moreover from n have "(of_nat (nat (- i)) :: rat) = - of_int i"
      by simp
    ultimately show ?thesis
      using n by (simp add: decimal_def)
  qed
qed

section \<open>The writes of a cycle\<close>

lemma fst_set_style: "fst (set_style q v ew) = (fst ew)\<lparr>style := (style (fst ew))(q := v)\<rparr>"
  by (cases ew) (simp add: set_style_def)

lemma snd_set_style: "snd (set_style q v ew) = snd ew @ [(q, v)]"
  by (cases ew) (simp add: set_style_def)

lemma snd_write_transform:
  "snd (write_transform mtx ew) =
     snd ew @ [(''msTransform'', transform_text mtx), (''OTransform'', transform_text mtx),
               (''WebkitTransform'', transform_text mtx), (''transform'', transform_text mtx),
               (''MozTransform'', moz_transform_text mtx)]"
  by (simp add: write_transform_def Let_def snd_set_style)

lemma visibility_write_transform:
  "style (fst (write_transform mtx ew)) ''visibility'' = style (fst ew) ''visibility''"
  by (simp add: write_transform_def Let_def fst_set_style)

lemma snd_after_visibility:
  "snd (after_visibility el v) = (if v = style el ''visibility'' then [] else [(''visibility'', v)])"
  by (simp add: after_visibility_def snd_set_style)

lemma visibility_after_visibility: "style (fst (after_visibility el v)) ''visibility'' = v"
  by (simp add: after_visibility_def fst_set_style)

lemma others_after_visibility:
  "p \<noteq> ''visibility'' \<Longrightarrow> style (fst (after_visibility el v)) p = style el p"
  by (simp add: after_visibility_def fst_set_style)

lemma after_visibility_same:
  "style el ''visibility'' = v \<Longrightarrow> after_visibility el v = (el, [])"
  by (simp add: after_visibility_def)

lemma snd_after_transform:
  "snd (after_transform old mtx ew) =
     snd ew @
     (if matrix_changed old mtx
      then [(''msTransform'', transform_text mtx), (''OTransform'', transform_text mtx),
            (''WebkitTransform'', transform_text mtx), (''transform'', transform_text mtx),
            (''MozTransform'', moz_transform_text mtx)]
      else [])"
  by (simp add: after_transform_def snd_write_transform)

lemma visibility_after_transform:
  "style (fst (after_transform old mtx ew)) ''visibility'' = style (fst ew) ''visibility''"
  by (simp add: after_transform_def visibility_write_transform)

lemma snd_after_opacity:
  "snd (after_opacity old al ew) =
     snd ew @
     (if opacity_changed old al then [(''opacity'', js_num_to_string (scaled al))] else [])"
  by (simp add: after_opacity_def snd_set_style)

lemma visibility_after_opacity:
  "style (fst (after_opacity old al ew)) ''visibility'' = style (fst ew) ''visibility''"
  by (simp add: after_opacity_def fst_set_style)

lemma writes_hidden:
  assumes "htmlElement this = Some el" and "\<not> visible props"
  shows "writes (handleDrawEnd props this) =
     (if style el ''visibility'' = ''hidden'' then [] else [(''visibility'', ''hidden'')])"
  using assms by (auto simp: handleDrawEnd_hidden writes_def snd_after_visibility)

lemma writes_visible:
  assumes "htmlElement this = Some el" and "visible props"
  shows "writes (handleDrawEnd props this) =
     (if style el ''visibility'' = ''visible'' then [] else [(''visibility'', ''visible'')]) @
     (if matrix_changed (oldProps this) (matrix props)
      then [(''msTransform'', transform_text (matrix props)),
            (''OTransform'', transform_text (matrix props)),
            (''WebkitTransform'', transform_text (matrix props)),
            (''transform'', transform_text (matrix props)),
            (''MozTransform'', moz_transform_text (matrix props))]
      else []) @
     (if opacity_changed (oldProps this) (alpha props)
      then [(''opacity'', js_num_to_string (scaled (alpha props)))] else [])"
  using assms
  by (auto simp: handleDrawEnd_visible writes_def snd_after_opacity snd_after_transform
      snd_after_visibility)

lemma node_visible:
  assumes "htmlElement this = Some el" and "visible props"
  shows "oldProps (node (handleDrawEnd props this)) = Some (cache_after (oldProps this) props)"
    and "\<exists>el'. htmlElement (node (handleDrawEnd props this)) = Some el' \<and>
           style el' ''visibility'' = ''visible''"
  using assms
  by (simp_all add: handleDrawEnd_visible node_def visibility_after_opacity
      visibility_after_transform visibility_after_visibility)

lemma written_visible:
  assumes "htmlElement this = Some el" and "visible props"
  shows "written ''transform'' (writes (handleDrawEnd props this)) =
           (if matrix_changed (oldProps this) (matrix props)
            then [transform_text (matrix props)] else [])"
    and "written ''WebkitTransform'' (writes (handleDrawEnd props this)) =
           (if matrix_changed (oldProps this) (matrix props)
            then [transform_text (matrix props)] else [])"
    and "written ''OTransform'' (writes (handleDrawEnd props this)) =
           (if matrix_changed (oldProps this) (matrix props)
            then [transform_text (matrix props)] else [])"
    and "written ''msTransform'' (writes (handleDrawEnd props this)) =
           (if matrix_changed (oldProps this) (matrix props)
            then [transform_text (matrix props)] else [])"
    and "written ''MozTransform'' (writes (handleDrawEnd props this)) =
           (if matrix_changed (oldProps this) (matrix props)
            then [moz_transform_text (matrix props)] else [])"
    and "written ''opacity'' (writes (handleDrawEnd props this)) =
           (if opacity_changed (oldProps this) (alpha props)
            then [js_num_to_string (scaled (alpha props))] else [])"
  using assms by (simp_all add: writes_visible written_def)

section \<open>Evaluation of the routine's numeric expressions\<close>

lemmas val_eval = str_eval scaled_def pixel_def precision_def js_bitor_zero js_bitor_nan
  trunc_toward_zero_def

lemma text_scaled_1: "js_num_to_string (scaled (Fin 1)) = ''1''"
  by (simp add: val_eval)

lemma text_scaled_0: "js_num_to_string (scaled (Fin 0)) = ''0''"
  by (simp add: val_eval)

lemma text_scaled_half: "js_num_to_string (scaled (Fin (1 / 2))) = ''0.5''"
  by (simp add: val_eval)

lemma text_scaled_nan: "js_num_to_string (scaled NaN) = ''0''"
  by (simp add: val_eval)

lemma text_pixel_nan: "js_num_to_string (pixel NaN) = ''0''"
  by (simp add: val_eval)

lemma text_pixel_0: "js_num_to_string (pixel (Fin 0)) = ''0''"
  by (simp add: val_eval)

lemma text_pixel_3: "js_num_to_string (pixel (Fin 3)) = ''3''"
  by (simp add: val_eval)

lemma text_pixel_4: "js_num_to_string (pixel (Fin 4)) = ''4''"
  by (simp add: val_eval)

lemma text_pixel_3_7: "js_num_to_string (pixel ex_3_7) = ''4''"
  by (simp add: ex_3_7_def val_eval)

lemma text_pixel_minus_2_2: "js_num_to_string (pixel ex_minus_2_2) = ''-1''"
  by (simp add: ex_minus_2_2_def val_eval)

lemma text_pixel_3e9: "js_num_to_string (pixel ex_3e9) = ''-1294967296''"
  by (simp add: ex_3e9_def ex_3e5_def val_eval)

lemma text_scaled_3e5: "js_num_to_string (scaled ex_3e5) = ''-129496.7296''"
  by (simp add: ex_3e5_def val_eval)

lemma lit_half: "ex_half = Fin (1 / 2)"
  by (simp add: ex_half_def num_eval)

lemma lit_0_50001: "ex_0_50001 = Fin (4503689699363043 / 9007199254740992)"
  by (simp add: ex_0_50001_def num_eval)

lemma text_scaled_0_50001: "js_num_to_string (scaled ex_0_50001) = ''0.5''"
  by (simp add: ex_0_50001_def val_eval)

lemma half_3_7: "add_half_truncate ex_3_7 = Some 4"
  by (simp add: ex_3_7_def add_half_truncate_def val_eval)

lemma half_minus_2_2: "add_half_truncate ex_minus_2_2 = Some (- 1)"
  by (simp add: ex_minus_2_2_def add_half_truncate_def val_eval)

lemma half_3e9: "add_half_truncate ex_3e9 = Some 3000000000"
  by (simp add: ex_3e9_def ex_3e5_def add_half_truncate_def val_eval)

lemma scale_1: "scale_truncate (Fin 1) = Some 10000"
  by (simp add: scale_truncate_def val_eval)

lemma scale_0: "scale_truncate (Fin 0) = Some 0"
  by (simp add: scale_truncate_def val_eval)

lemma scale_3e5: "scale_truncate ex_3e5 = Some 3000000000"
  by (simp add: ex_3e5_def scale_truncate_def val_eval)

lemma scale_0_99999: "scale_truncate ex_0_99999 = Some 9999"
  by (simp add: ex_0_99999_def scale_truncate_def val_eval)

lemma scale_minus_1_23456789: "scale_truncate ex_minus_1_23456789 = Some (- 12345)"
  by (simp add: ex_minus_1_23456789_def scale_truncate_def val_eval)

lemma scale_0_50001: "scale_truncate ex_0_50001 = Some 5000"
  by (simp add: ex_0_50001_def scale_truncate_def val_eval)

lemma fixed4_10000: "fixed4_text 10000 = ''1''"
  by (simp add: fixed4_text_def val_eval)

lemma fixed4_0: "fixed4_text 0 = ''0''"
  by (simp add: fixed4_text_def val_eval)

lemma fixed4_5000: "fixed4_text 5000 = ''0.5''"
  by (simp add: fixed4_text_def val_eval)

lemma fixed4_9999: "fixed4_text 9999 = ''0.9999''"
  by (simp add: fixed4_text_def val_eval)

lemma fixed4_minus_12345: "fixed4_text (- 12345) = ''-1.2345''"
  by (simp add: fixed4_text_def val_eval)

lemma fixed4_3e9: "fixed4_text 3000000000 = ''300000''"
  by (simp add: fixed4_text_def val_eval)

lemma decimal_examples:
  "decimal 4 = ''4''" "decimal (- 1) = ''-1''" "decimal 3000000000 = ''3000000000''"
  by (simp_all add: decimal_def nat_digits.simps digit_char_def)

lemma int32_range_examples:
  "int32_range 4" "int32_range (- 1)" "int32_range 0" "int32_range 10000" "int32_range 9999"
  "int32_range (- 12345)" "int32_range 5000" "\<not> int32_range 3000000000"
  by (simp_all add: int32_range_def)

section \<open>The example node\<close>

lemma transform_text_split: "transform_text mtx = linear_text mtx @ translation_text mtx"
  by (simp add: transform_text_def matrix_str_def linear_text_def translation_text_def)

lemma moz_transform_text_split:
  "moz_transform_text mtx =
     linear_text mtx @ js_num_to_string (pixel (m_tx mtx)) @ ''px,'' @
     js_num_to_string (pixel (m_ty mtx)) @ ''px)''"
  by (simp add: moz_transform_text_def matrix_str_def linear_text_def)

lemma linear_text_ex:
  "linear_text (ex_matrix sx sk x y) =
     ''matrix('' @ js_num_to_string (scaled sx) @ '','' @ js_num_to_string (scaled sk) @ '',0,1,''"
  by (simp add: linear_text_def ex_matrix_def text_scaled_0 text_scaled_1)

lemma moz_transform_text_split': "moz_transform_text mtx = linear_text mtx @ moz_translation_text mtx"
  by (simp add: moz_transform_text_split moz_translation_text_def)

lemma moz_translation_text_ex:
  "moz_translation_text (ex_matrix sx sk x y) =
     js_num_to_string (pixel x) @ ''px,'' @ js_num_to_string (pixel y) @ ''px)''"
  by (simp add: moz_translation_text_def ex_matrix_def)

lemma truncated4_scaled: "truncated4 x (js_num_to_string (scaled x))"
proof (cases "scale_truncate x")
  case None
  then show ?thesis
    by (simp add: truncated4_def)
next
  case (Some k)
  show ?thesis
  proof (cases "int32_range k")
    case True
    with Some have "js_num_to_string (scaled x) = fixed4_text k"
      by (rule scaled_in_range)
    with Some True show ?thesis
      by (simp add: truncated4_def)
  next
    case False
    with Some show ?thesis
      by (simp add: truncated4_def)
  qed
qed

lemma translation_text_ex:
  "translation_text (ex_matrix sx sk x y) =
     js_num_to_string (pixel x) @ '','' @ js_num_to_string (pixel y) @ '')''"
  by (simp add: translation_text_def ex_matrix_def)

lemma ex_node_facts:
  "htmlElement ex_node = Some ex_element" "oldProps ex_node = None"
  "style ex_element ''visibility'' = []"
  by (simp_all add: ex_node_def ex_element_def)

lemma ex_props_facts:
  "visible (ex_props vis al mtx) = vis" "alpha (ex_props vis al mtx) = al"
  "matrix (ex_props vis al mtx) = mtx"
  by (simp_all add: ex_props_def)

lemma ex_matrix_facts:
  "m_a (ex_matrix sx sk x y) = sx" "m_b (ex_matrix sx sk x y) = sk"
  "m_c (ex_matrix sx sk x y) = Fin 0" "m_d (ex_matrix sx sk x y) = Fin 1"
  "m_tx (ex_matrix sx sk x y) = x" "m_ty (ex_matrix sx sk x y) = y"
  by (simp_all add: ex_matrix_def)

lemma first_cycle_ex:
  "writes (handleDrawEnd (ex_props True al mtx) ex_node) =
     [(''visibility'', ''visible''),
      (''msTransform'', transform_text mtx), (''OTransform'', transform_text mtx),
      (''WebkitTransform'', transform_text mtx), (''transform'', transform_text mtx),
      (''MozTransform'', moz_transform_text mtx),
      (''opacity'', js_num_to_string (scaled al))]"
  by (simp add: writes_visible [of ex_node ex_element] ex_node_facts ex_props_facts
      matrix_changed_def opacity_changed_def)

lemma cache_after_fields:
  "matrix (cache_after old props) = matrix props" "alpha (cache_after old props) = alpha props"
  by (cases old; simp add: cache_after_def)+

lemma cache_after_again: "cache_after (Some (cache_after old props)) props = cache_after old props"
  by (cases old) (simp_all add: cache_after_def)

lemma second_cycle_writes:
  assumes "htmlElement this = Some el" and "visible props"
  shows "writes (handleDrawEnd props' (node (handleDrawEnd props this))) =
     (if visible props'
      then (if Matrix2D_equals (matrix props) (matrix props') then []
            else [(''msTransform'', transform_text (matrix props')),
                  (''OTransform'', transform_text (matrix props')),
                  (''WebkitTransform'', transform_text (matrix props')),
                  (''transform'', transform_text (matrix props')),
                  (''MozTransform'', moz_transform_text (matrix props'))]) @
           (if js_neq (alpha props) (alpha props')
            then [(''opacity'', js_num_to_string (scaled (alpha props')))] else [])
      else [(''visibility'', ''hidden'')])"
proof -
  from assms obtain el' where el': "htmlElement (node (handleDrawEnd props this)) = Some el'"
    and vis: "style el' ''visibility'' = ''visible''"
    using node_visible(2) by blast
  from assms have old: "oldProps (node (handleDrawEnd props this)) = Some (cache_after (oldProps this) props)"
    by (rule node_visible(1))
  show ?thesis
  proof (cases "visible props'")
    case True
    with el' vis old show ?thesis
      by (simp add: writes_visible [OF el'] matrix_changed_def opacity_changed_def
          cache_after_fields)
  next
    case False
    with el' vis show ?thesis
      by (simp add: writes_hidden [OF el'])
  qed
qed

section \<open>The control flow of a cycle\<close>

text \<open>
  C7.  With no element bound, \<open>_handleDrawEnd\<close> returns without an error, writes
  nothing and leaves the node, the cached \<open>_oldProps\<close> included, as it was.
\<close>

theorem unbound_cycle_is_noop:
  assumes "htmlElement this = None"
  shows "handleDrawEnd props this = (Inr (), this, [])"
  using assms by (rule handleDrawEnd_unbound)

theorem unbound_cycle_is_noop_witness:
  "htmlElement ex_unbound = None \<and>
   handleDrawEnd (ex_props True (Fin 1) (ex_matrix (Fin 1) (Fin 0) (Fin 0) (Fin 0))) ex_unbound =
     (Inr (), ex_unbound, [])"
  using unbound_cycle_is_noop [of ex_unbound "ex_props True (Fin 1) (ex_matrix (Fin 1) (Fin 0) (Fin 0) (Fin 0))"]
  by (simp add: ex_unbound_def)

text \<open>
  C2.  With an element bound and a snapshot that is not visible, the cycle ends without
  an error; its only write is ``hidden'' to the visibility property, made when the
  property did not hold that text already; no transform property and not the opacity is
  written, whatever the cache holds; the cached \<open>_oldProps\<close> is unchanged, and so is
  every property of the element other than the visibility.
\<close>

theorem hidden_cycle_writes_visibility_only:
  assumes "htmlElement this = Some el" and "\<not> visible props"
  shows "outcome (handleDrawEnd props this) = Inr () \<and>
     writes (handleDrawEnd props this) =
       (if style el ''visibility'' = ''hidden'' then [] else [(''visibility'', ''hidden'')]) \<and>
     oldProps (node (handleDrawEnd props this)) = oldProps this \<and>
     (\<exists>el'. htmlElement (node (handleDrawEnd props this)) = Some el' \<and>
        style el' = (style el)(''visibility'' := ''hidden'') \<and> elem_id el' = elem_id el)"
proof -
  have "fst (after_visibility el ''hidden'') = el\<lparr>style := (style el)(''visibility'' := ''hidden'')\<rparr>"
    by (cases el) (auto simp: after_visibility_def fst_set_style)
  with assms show ?thesis
    by (simp add: writes_hidden) (simp add: handleDrawEnd_hidden outcome_def node_def)
qed

theorem hidden_cycle_writes_visibility_only_witness:
  "htmlElement ex_node = Some ex_element \<and>
   \<not> visible (ex_props False (Fin 1) (ex_matrix (Fin 2) (Fin 0) (Fin 3) (Fin 4))) \<and>
   writes (handleDrawEnd (ex_props False (Fin 1) (ex_matrix (Fin 2) (Fin 0) (Fin 3) (Fin 4))) ex_node) =
     [(''visibility'', ''hidden'')] \<and>
   oldProps (node (handleDrawEnd (ex_props False (Fin 1) (ex_matrix (Fin 2) (Fin 0) (Fin 3) (Fin 4))) ex_node)) =
     None"
  using hidden_cycle_writes_visibility_only
    [of ex_node ex_element "ex_props False (Fin 1) (ex_matrix (Fin 2) (Fin 0) (Fin 3) (Fin 4))"]
  by (simp add: ex_node_def ex_element_def ex_props_def)

text \<open>
  C9.  No cycle ends in the \<open>TypeError\<close> of reading \<open>alpha\<close> of an absent
  \<open>_oldProps\<close>.  In a cycle with an element bound and a visible snapshot the cache is
  present after the cycle; when it was absent before, the matrix branch ran: the transform
  was written and the cache created there holds the snapshot's matrix.
\<close>

theorem opacity_comparison_reads_present_cache:
  "outcome (handleDrawEnd props this) = Inr () \<and>
   (htmlElement this \<noteq> None \<and> visible props \<longrightarrow>
      oldProps (node (handleDrawEnd props this)) \<noteq> None) \<and>
   (htmlElement this \<noteq> None \<and> visible props \<and> oldProps this = None \<longrightarrow>
      written ''transform'' (writes (handleDrawEnd props this)) = [transform_text (matrix props)] \<and>
      map_option matrix (oldProps (node (handleDrawEnd props this))) = Some (matrix props))"
proof (cases "htmlElement this")
  case None
  then show ?thesis
    by (simp add: handleDrawEnd_unbound outcome_def)
next
  case (Some el)
  show ?thesis
  proof (cases "visible props")
    case False
    with Some show ?thesis
      by (simp add: handleDrawEnd_hidden outcome_def)
  next
    case True
    have "matrix (cache_after None props) = matrix props"
      by (simp add: cache_after_def)
    with Some True show ?thesis
      by (simp add: written_visible(1) node_visible(1) matrix_changed_def)
        (simp add: handleDrawEnd_visible outcome_def)
  qed
qed

theorem opacity_comparison_reads_present_cache_witness:
  "htmlElement ex_node \<noteq> None \<and> oldProps ex_node = None \<and>
   visible (ex_props True (Fin 1) (ex_matrix (Fin 1) (Fin 0) (Fin 0) (Fin 0))) \<and>
   outcome (handleDrawEnd (ex_props True (Fin 1) (ex_matrix (Fin 1) (Fin 0) (Fin 0) (Fin 0))) ex_node) = Inr () \<and>
   map_option matrix
     (oldProps (node (handleDrawEnd (ex_props True (Fin 1) (ex_matrix (Fin 1) (Fin 0) (Fin 0) (Fin 0))) ex_node))) =
     Some (ex_matrix (Fin 1) (Fin 0) (Fin 0) (Fin 0))"
  using opacity_comparison_reads_present_cache
    [of "ex_props True (Fin 1) (ex_matrix (Fin 1) (Fin 0) (Fin 0) (Fin 0))" ex_node]
  by (simp add: ex_node_def ex_props_def)

text \<open>
  C6.  \<open>clone\<close>, whatever its arguments, ends by throwing; the node, its element's
  properties and its cached \<open>_oldProps\<close> are as before the call, and nothing is written.
\<close>

theorem clone_always_throws:
  "clone args this = (Inl (Thrown ''DOMElement cannot be cloned.''), this, [])"
  by (simp add: clone_def)

text \<open>
  C8.  Any sequence of calls of \<open>cache\<close>, \<open>uncache\<close>, \<open>updateCache\<close>,
  \<open>hitTest\<close>, \<open>localToGlobal\<close>, \<open>globalToLocal\<close> and \<open>localToLocal\<close>, with
  any arguments, ends without an error, writes nothing and leaves the node as it was.
\<close>

theorem stub_calls_change_nothing:
  "invoke_all calls this = (Inr (), this, [])"
proof (induction calls)
  case Nil
  show ?case by simp
next
  case (Cons c cs)
  have "invoke c this = (Inr (), this, [])"
    by (cases c)
      (simp_all add: cache_def uncache_def updateCache_def hitTest_def localToGlobal_def
        globalToLocal_def localToLocal_def)
  with Cons show ?case by simp
qed

section \<open>Change detection\<close>

text \<open>
  C3 (as amended).  When the snapshot holds no \<open>NaN\<close> (none of the six matrix
  components, and not the opacity), a second cycle with the same snapshot, right after a
  first one, ends without an error, writes nothing to the element (neither visibility
  nor transform nor opacity) and leaves the node as the first cycle left it.
\<close>

theorem unchanged_snapshot_second_cycle_writes_nothing:
  assumes "no_nan props"
  shows "handleDrawEnd props (node (handleDrawEnd props this)) =
           (Inr (), node (handleDrawEnd props this), [])"
proof (cases "htmlElement this")
  case None
  then show ?thesis
    by (simp add: handleDrawEnd_unbound node_def)
next
  case (Some el)
  show ?thesis
  proof (cases "visible props")
    case False
    define el1 where "el1 = fst (after_visibility el ''hidden'')"
    define this1 where "this1 = this\<lparr>htmlElement := Some el1\<rparr>"
    from Some False have n: "node (handleDrawEnd props this) = this1"
      by (simp add: handleDrawEnd_hidden node_def this1_def el1_def)
    have b: "htmlElement this1 = Some el1"
      by (simp add: this1_def)
    have "style el1 ''visibility'' = ''hidden''"
      by (simp add: el1_def visibility_after_visibility)
    then have "after_visibility el1 ''hidden'' = (el1, [])"
      by (rule after_visibility_same)
    with b False have "handleDrawEnd props this1 = (Inr (), this1\<lparr>htmlElement := Some el1\<rparr>, [])"
      by (simp add: handleDrawEnd_hidden)
    moreover have "this1\<lparr>htmlElement := Some el1\<rparr> = this1"
      by (simp add: this1_def)
    ultimately show ?thesis
      using n by simp
  next
    case True
    define c where "c = cache_after (oldProps this) props"
    define el1 where "el1 = fst (after_opacity (oldProps this) (alpha props)
      (after_transform (oldProps this) (matrix props) (after_visibility el ''visible'')))"
    define this1 where "this1 = this\<lparr>htmlElement := Some el1, oldProps := Some c\<rparr>"
    from Some True have n: "node (handleDrawEnd props this) = this1"
      by (simp add: handleDrawEnd_visible node_def this1_def el1_def c_def)
    have b: "htmlElement this1 = Some el1" and o: "oldProps this1 = Some c"
      by (simp_all add: this1_def)
    have "style el1 ''visibility'' = ''visible''"
      by (simp add: el1_def visibility_after_opacity visibility_after_transform
          visibility_after_visibility)
    then have v: "after_visibility el1 ''visible'' = (el1, [])"
      by (rule after_visibility_same)
    from assms have "Matrix2D_equals (matrix props) (matrix props)"
      by (simp add: no_nan_def Matrix2D_equals_def js_strict_eq_refl)
    then have m: "\<not> matrix_changed (Some c) (matrix props)"
      by (simp add: matrix_changed_def c_def cache_after_fields)
    from assms have "\<not> js_neq (alpha props) (alpha props)"
      by (simp add: no_nan_def js_neq_def js_strict_eq_refl)
    then have a: "\<not> opacity_changed (Some c) (alpha props)"
      by (simp add: opacity_changed_def c_def cache_after_fields)
    have k: "cache_after (Some c) props = c"
      by (simp add: c_def cache_after_again)
    from b o True v m a k
    have "handleDrawEnd props this1 = (Inr (), this1\<lparr>htmlElement := Some el1, oldProps := Some c\<rparr>, [])"
      by (simp add: handleDrawEnd_visible after_transform_def after_opacity_def)
    moreover have "this1\<lparr>htmlElement := Some el1, oldProps := Some c\<rparr> = this1"
      by (simp add: this1_def)
    ultimately show ?thesis
      using n by simp
  qed
qed

theorem unchanged_snapshot_second_cycle_writes_nothing_witness:
  "no_nan (ex_props True (Fin (1 / 2)) (ex_matrix (Fin 1) (Fin 0) (Fin 3) (Fin 4))) \<and>
   written ''transform''
     (writes (handleDrawEnd (ex_props True (Fin (1 / 2)) (ex_matrix (Fin 1) (Fin 0) (Fin 3) (Fin 4)))
        ex_node)) = [''matrix(1,0,0,1,3,4)''] \<and>
   writes (handleDrawEnd (ex_props True (Fin (1 / 2)) (ex_matrix (Fin 1) (Fin 0) (Fin 3) (Fin 4)))
     (node (handleDrawEnd (ex_props True (Fin (1 / 2)) (ex_matrix (Fin 1) (Fin 0) (Fin 3) (Fin 4)))
        ex_node))) = []"
proof -
  have h: "no_nan (ex_props True (Fin (1 / 2)) (ex_matrix (Fin 1) (Fin 0) (Fin 3) (Fin 4)))"
    by (simp add: no_nan_def ex_props_facts ex_matrix_facts)
  have "transform_text (ex_matrix (Fin 1) (Fin 0) (Fin 3) (Fin 4)) = ''matrix(1,0,0,1,3,4)''"
    by (simp add: transform_text_split linear_text_ex translation_text_ex text_scaled_1
        text_scaled_0 text_pixel_3 text_pixel_4)
  then have "written ''transform''
     (writes (handleDrawEnd (ex_props True (Fin (1 / 2)) (ex_matrix (Fin 1) (Fin 0) (Fin 3) (Fin 4)))
        ex_node)) = [''matrix(1,0,0,1,3,4)'']"
    by (simp add: first_cycle_ex written_def)
  with h unchanged_snapshot_second_cycle_writes_nothing [OF h, of ex_node] show ?thesis
    by (simp add: writes_def)
qed

theorem nan_snapshot_rewritten_counterexample:
  "writes (handleDrawEnd (ex_props True (Fin 1) (ex_matrix (Fin 1) (Fin 0) NaN (Fin 0)))
     (node (handleDrawEnd (ex_props True (Fin 1) (ex_matrix (Fin 1) (Fin 0) NaN (Fin 0))) ex_node))) =
     [(''msTransform'', ''matrix(1,0,0,1,0,0)''), (''OTransform'', ''matrix(1,0,0,1,0,0)''),
      (''WebkitTransform'', ''matrix(1,0,0,1,0,0)''), (''transform'', ''matrix(1,0,0,1,0,0)''),
      (''MozTransform'', ''matrix(1,0,0,1,0px,0px)'')] \<and>
   writes (handleDrawEnd (ex_props True NaN (ex_matrix (Fin 1) (Fin 0) (Fin 0) (Fin 0)))
     (node (handleDrawEnd (ex_props True NaN (ex_matrix (Fin 1) (Fin 0) (Fin 0) (Fin 0))) ex_node))) =
     [(''opacity'', ''0'')]"
proof -
  have t: "transform_text (ex_matrix (Fin 1) (Fin 0) NaN (Fin 0)) = ''matrix(1,0,0,1,0,0)''"
    by (simp add: transform_text_split linear_text_ex translation_text_ex text_scaled_1
        text_scaled_0 text_pixel_nan text_pixel_0)
  have z: "moz_transform_text (ex_matrix (Fin 1) (Fin 0) NaN (Fin 0)) = ''matrix(1,0,0,1,0px,0px)''"
    by (simp add: moz_transform_text_split linear_text_ex ex_matrix_facts text_scaled_1
        text_scaled_0 text_pixel_nan text_pixel_0)
  have e: "\<not> Matrix2D_equals (ex_matrix (Fin 1) (Fin 0) NaN (Fin 0)) (ex_matrix (Fin 1) (Fin 0) NaN (Fin 0))"
    by (simp add: Matrix2D_equals_def js_strict_eq_def ex_matrix_facts)
  have e': "Matrix2D_equals (ex_matrix (Fin 1) (Fin 0) (Fin 0) (Fin 0)) (ex_matrix (Fin 1) (Fin 0) (Fin 0) (Fin 0))"
    by (simp add: Matrix2D_equals_def js_strict_eq_def ex_matrix_facts)
  have n: "js_neq NaN NaN" "\<not> js_neq (Fin 1) (Fin 1)"
    by (simp_all add: js_neq_def js_strict_eq_def)
  show ?thesis
    by (simp add: second_cycle_writes [of ex_node ex_element] ex_node_facts ex_props_facts
        t z e e' n text_scaled_nan)
qed

section \<open>The numeric formats\<close>

text \<open>
  C1 (as amended).  In a cycle with an element bound and a visible snapshot, let each
  translation component plus 0.5 be finite and its truncation toward zero lie in the
  signed 32-bit range.  Then the text written to \<open>transform\<close> and to its three
  prefixed twins, when the matrix changed (else nothing is written to them), ends in
  the decimal numerals of these two integers, and the text written to \<open>MozTransform\<close>
  ends in them with the unit \<open>px\<close>.  At the translations 3.7 and -2.2 the integers are 4 and -1.
\<close>

theorem translation_add_half_truncate:
  assumes "htmlElement this = Some el" and "visible props"
    and "add_half_truncate (m_tx (matrix props)) = Some i" and "int32_range i"
    and "add_half_truncate (m_ty (matrix props)) = Some j" and "int32_range j"
  shows "(\<forall>p \<in> set [''transform'', ''WebkitTransform'', ''OTransform'', ''msTransform''].
            written p (writes (handleDrawEnd props this)) =
              (if matrix_changed (oldProps this) (matrix props)
               then [linear_text (matrix props) @ decimal i @ '','' @ decimal j @ '')'']
               else [])) \<and>
         written ''MozTransform'' (writes (handleDrawEnd props this)) =
           (if matrix_changed (oldProps this) (matrix props)
            then [linear_text (matrix props) @ decimal i @ ''px,'' @ decimal j @ ''px)'']
            else [])"
proof -
  from assms(3,4) have "pixel (m_tx (matrix props)) = Fin (of_int i)"
    by (rule pixel_in_range)
  with assms(4) have x: "js_num_to_string (pixel (m_tx (matrix props))) = decimal i"
    by (simp only: num_to_string_int32)
  from assms(5,6) have "pixel (m_ty (matrix props)) = Fin (of_int j)"
    by (rule pixel_in_range)
  with assms(6) have y: "js_num_to_string (pixel (m_ty (matrix props))) = decimal j"
    by (simp only: num_to_string_int32)
  from x y have t: "transform_text (matrix props) =
      linear_text (matrix props) @ decimal i @ '','' @ decimal j @ '')''"
    by (simp add: transform_text_split translation_text_def)
  from x y have z: "moz_transform_text (matrix props) =
      linear_text (matrix props) @ decimal i @ ''px,'' @ decimal j @ ''px)''"
    by (simp add: moz_transform_text_split)
  from assms(1,2) show ?thesis
    by (simp add: written_visible t z)
qed

theorem translation_add_half_truncate_witness:
  "add_half_truncate ex_3_7 = Some 4 \<and> int32_range 4 \<and>
   add_half_truncate ex_minus_2_2 = Some (- 1) \<and> int32_range (- 1) \<and>
   written ''transform''
     (writes (handleDrawEnd
        (ex_props True (Fin 1) (ex_matrix (Fin 1) (Fin 0) ex_3_7 ex_minus_2_2))
        ex_node)) = [''matrix(1,0,0,1,4,-1)''] \<and>
   written ''MozTransform''
     (writes (handleDrawEnd
        (ex_props True (Fin 1) (ex_matrix (Fin 1) (Fin 0) ex_3_7 ex_minus_2_2))
        ex_node)) = [''matrix(1,0,0,1,4px,-1px)'']"
  using translation_add_half_truncate
    [of ex_node ex_element
      "ex_props True (Fin 1) (ex_matrix (Fin 1) (Fin 0) ex_3_7 ex_minus_2_2)"
      4 "- 1"]
  by (simp add: ex_node_facts ex_props_facts ex_matrix_facts half_3_7 half_minus_2_2
      int32_range_examples matrix_changed_def linear_text_ex text_scaled_1 text_scaled_0
      decimal_examples)

theorem translation_examples_counterexample:
  "written ''transform''
     (writes (handleDrawEnd
        (ex_props True (Fin 1) (ex_matrix (Fin 1) (Fin 0) ex_3_7 ex_minus_2_2))
        ex_node)) = [''matrix(1,0,0,1,4,-1)''] \<and>
   ''matrix(1,0,0,1,4,-1)'' \<noteq> ''matrix(1,0,0,1,4,-2)'' \<and>
   add_half_truncate ex_3e9 = Some 3000000000 \<and> decimal 3000000000 = ''3000000000'' \<and>
   written ''transform''
     (writes (handleDrawEnd
        (ex_props True (Fin 1) (ex_matrix (Fin 1) (Fin 0) ex_3e9 (Fin 0)))
        ex_node)) = [''matrix(1,0,0,1,-1294967296,0)'']"
  by (simp add: first_cycle_ex written_def transform_text_split linear_text_ex
      translation_text_ex text_scaled_1 text_scaled_0 text_pixel_3_7 text_pixel_minus_2_2
      text_pixel_3e9 text_pixel_0 half_3e9 decimal_examples)

text \<open>
  C4 (as amended).  In a cycle with an element bound and a visible snapshot, the text
  written to \<open>transform\<close>, to its three prefixed twins and to \<open>MozTransform\<close> (when the
  matrix changed; else nothing is written to them) is \<open>matrix(\<close>, four texts for the
  four linear components separated by commas, and the translation; the text written to
  \<open>opacity\<close> (when the opacity changed; else nothing is written to it) is one text for the
  opacity.  Each of these five texts, on its own, formats its number by truncation to
  exactly four decimal digits wherever the number times 10000 is finite and truncates
  toward zero to an integer in the signed 32-bit range: it is the text of that integer
  divided by 10000.  The components 0.99999 and -1.23456789 are written as 0.9999 and
  -1.2345, not as the nearest 1 and -1.2346, also next to a component out of the range.
\<close>

theorem linear_and_opacity_truncated_to_four_decimals:
  assumes "htmlElement this = Some el" and "visible props"
  shows "\<exists>ta tb tc td topac.
     (\<forall>p \<in> set [''transform'', ''WebkitTransform'', ''OTransform'', ''msTransform''].
        written p (writes (handleDrawEnd props this)) =
          (if matrix_changed (oldProps this) (matrix props)
           then [''matrix('' @ ta @ '','' @ tb @ '','' @ tc @ '','' @ td @ '','' @
                 translation_text (matrix props)]
           else [])) \<and>
     written ''MozTransform'' (writes (handleDrawEnd props this)) =
       (if matrix_changed (oldProps this) (matrix props)
        then [''matrix('' @ ta @ '','' @ tb @ '','' @ tc @ '','' @ td @ '','' @
              moz_translation_text (matrix props)]
        else []) \<and>
     written ''opacity'' (writes (handleDrawEnd props this)) =
       (if opacity_changed (oldProps this) (alpha props) then [topac] else []) \<and>
     truncated4 (m_a (matrix props)) ta \<and> truncated4 (m_b (matrix props)) tb \<and>
     truncated4 (m_c (matrix props)) tc \<and> truncated4 (m_d (matrix props)) td \<and>
     truncated4 (alpha props) topac"
proof (intro exI conjI)
  have t: "transform_text (matrix props) =
      ''matrix('' @ js_num_to_string (scaled (m_a (matrix props))) @ '','' @
      js_num_to_string (scaled (m_b (matrix props))) @ '','' @
      js_num_to_string (scaled (m_c (matrix props))) @ '','' @
      js_num_to_string (scaled (m_d (matrix props))) @ '','' @ translation_text (matrix props)"
    by (simp add: transform_text_split linear_text_def)
  have z: "moz_transform_text (matrix props) =
      ''matrix('' @ js_num_to_string (scaled (m_a (matrix props))) @ '','' @
      js_num_to_string (scaled (m_b (matrix props))) @ '','' @
      js_num_to_string (scaled (m_c (matrix props))) @ '','' @
      js_num_to_string (scaled (m_d (matrix props))) @ '','' @
      moz_translation_text (matrix props)"
    by (simp add: moz_transform_text_split' linear_text_def)
  from assms show "\<forall>p \<in> set [''transform'', ''WebkitTransform'', ''OTransform'', ''msTransform''].
      written p (writes (handleDrawEnd props this)) =
        (if matrix_changed (oldProps this) (matrix props)
         then [''matrix('' @ js_num_to_string (scaled (m_a (matrix props))) @ '','' @
               js_num_to_string (scaled (m_b (matrix props))) @ '','' @
               js_num_to_string (scaled (m_c (matrix props))) @ '','' @
               js_num_to_string (scaled (m_d (matrix props))) @ '','' @
               translation_text (matrix props)]
         else [])"
    by (simp add: written_visible t)
  from assms show "written ''MozTransform'' (writes (handleDrawEnd props this)) =
      (if matrix_changed (oldProps this) (matrix props)
       then [''matrix('' @ js_num_to_string (scaled (m_a (matrix props))) @ '','' @
             js_num_to_string (scaled (m_b (matrix props))) @ '','' @
             js_num_to_string (scaled (m_c (matrix props))) @ '','' @
             js_num_to_string (scaled (m_d (matrix props))) @ '','' @
             moz_translation_text (matrix props)]
       else [])"
    by (simp add: written_visible z)
  from assms show "written ''opacity'' (writes (handleDrawEnd props this)) =
      (if opacity_changed (oldProps this) (alpha props)
       then [js_num_to_string (scaled (alpha props))] else [])"
    by (simp add: written_visible)
qed (rule truncated4_scaled)+

theorem linear_and_opacity_truncated_to_four_decimals_witness:
  "htmlElement ex_node = Some ex_element \<and>
   scale_truncate ex_0_99999 = Some 9999 \<and> int32_range 9999 \<and>
   scale_truncate ex_minus_1_23456789 = Some (- 12345) \<and> int32_range (- 12345) \<and>
   scale_truncate ex_0_50001 = Some 5000 \<and> int32_range 5000 \<and>
   written ''transform''
     (writes (handleDrawEnd
        (ex_props True ex_0_50001 (ex_matrix ex_0_99999 ex_minus_1_23456789 (Fin 0) (Fin 0)))
        ex_node)) = [''matrix(0.9999,-1.2345,0,1,0,0)''] \<and>
   written ''MozTransform''
     (writes (handleDrawEnd
        (ex_props True ex_0_50001 (ex_matrix ex_0_99999 ex_minus_1_23456789 (Fin 0) (Fin 0)))
        ex_node)) = [''matrix(0.9999,-1.2345,0,1,0px,0px)''] \<and>
   written ''opacity''
     (writes (handleDrawEnd
        (ex_props True ex_0_50001 (ex_matrix ex_0_99999 ex_minus_1_23456789 (Fin 0) (Fin 0)))
        ex_node)) = [''0.5''] \<and>
   scale_truncate ex_3e5 = Some 3000000000 \<and> \<not> int32_range 3000000000 \<and>
   (\<exists>ta. written ''transform''
      (writes (handleDrawEnd
         (ex_props True ex_0_50001 (ex_matrix ex_3e5 ex_minus_1_23456789 (Fin 0) (Fin 0)))
         ex_node)) = [''matrix('' @ ta @ '',-1.2345,0,1,0,0)''] \<and>
    written ''MozTransform''
      (writes (handleDrawEnd
         (ex_props True ex_0_50001 (ex_matrix ex_3e5 ex_minus_1_23456789 (Fin 0) (Fin 0)))
         ex_node)) = [''matrix('' @ ta @ '',-1.2345,0,1,0px,0px)''])"
proof -
  let ?P = "ex_props True ex_0_50001 (ex_matrix ex_0_99999 ex_minus_1_23456789 (Fin 0) (Fin 0))"
  let ?Q = "ex_props True ex_0_50001 (ex_matrix ex_3e5 ex_minus_1_23456789 (Fin 0) (Fin 0))"
  have b: "htmlElement ex_node = Some ex_element"
    by (rule ex_node_facts)
  have vp: "visible ?P" and vq: "visible ?Q"
    by (simp_all add: ex_props_facts)
  have tr: "translation_text (ex_matrix sx sk (Fin 0) (Fin 0)) = ''0,0)''"
    and mz: "moz_translation_text (ex_matrix sx sk (Fin 0) (Fin 0)) = ''0px,0px)''" for sx sk
    by (simp_all add: translation_text_ex moz_translation_text_ex text_pixel_0)
  from linear_and_opacity_truncated_to_four_decimals [OF b vp]
  obtain ta tb tc td topac where
    w: "written ''transform'' (writes (handleDrawEnd ?P ex_node)) =
          [''matrix('' @ ta @ '','' @ tb @ '','' @ tc @ '','' @ td @ '',0,0)'']"
    and m: "written ''MozTransform'' (writes (handleDrawEnd ?P ex_node)) =
          [''matrix('' @ ta @ '','' @ tb @ '','' @ tc @ '','' @ td @ '',0px,0px)'']"
    and o: "written ''opacity'' (writes (handleDrawEnd ?P ex_node)) = [topac]"
    and ta: "truncated4 ex_0_99999 ta" and tb: "truncated4 ex_minus_1_23456789 tb"
    and tc: "truncated4 (Fin 0) tc" and td: "truncated4 (Fin 1) td"
    and topac: "truncated4 ex_0_50001 topac"
    by (auto simp: ex_node_facts ex_props_facts ex_matrix_facts matrix_changed_def
        opacity_changed_def tr mz)
  from ta have "ta = ''0.9999''"
    by (simp add: truncated4_def scale_0_99999 int32_range_examples fixed4_9999)
  moreover from tb have "tb = ''-1.2345''"
    by (simp add: truncated4_def scale_minus_1_23456789 int32_range_examples fixed4_minus_12345)
  moreover from tc have "tc = ''0''"
    by (simp add: truncated4_def scale_0 int32_range_examples fixed4_0)
  moreover from td have "td = ''1''"
    by (simp add: truncated4_def scale_1 int32_range_examples fixed4_10000)
  moreover from topac have "topac = ''0.5''"
    by (simp add: truncated4_def scale_0_50001 int32_range_examples fixed4_5000)
  ultimately have first:
    "written ''transform'' (writes (handleDrawEnd ?P ex_node)) = [''matrix(0.9999,-1.2345,0,1,0,0)'']"
    "written ''MozTransform'' (writes (handleDrawEnd ?P ex_node)) =
       [''matrix(0.9999,-1.2345,0,1,0px,0px)'']"
    "written ''opacity'' (writes (handleDrawEnd ?P ex_node)) = [''0.5'']"
    using w m o by simp_all
  from linear_and_opacity_truncated_to_four_decimals [OF b vq]
  obtain ua ub uc ud where
    w': "written ''transform'' (writes (handleDrawEnd ?Q ex_node)) =
          [''matrix('' @ ua @ '','' @ ub @ '','' @ uc @ '','' @ ud @ '',0,0)'']"
    and m': "written ''MozTransform'' (writes (handleDrawEnd ?Q ex_node)) =
          [''matrix('' @ ua @ '','' @ ub @ '','' @ uc @ '','' @ ud @ '',0px,0px)'']"
    and ub: "truncated4 ex_minus_1_23456789 ub"
    and uc: "truncated4 (Fin 0) uc" and ud: "truncated4 (Fin 1) ud"
    by (auto simp: ex_node_facts ex_props_facts ex_matrix_facts matrix_changed_def
        opacity_changed_def tr mz)
  from ub have "ub = ''-1.2345''"
    by (simp add: truncated4_def scale_minus_1_23456789 int32_range_examples fixed4_minus_12345)
  moreover from uc have "uc = ''0''"
    by (simp add: truncated4_def scale_0 int32_range_examples fixed4_0)
  moreover from ud have "ud = ''1''"
    by (simp add: truncated4_def scale_1 int32_range_examples fixed4_10000)
  ultimately have second:
    "written ''transform'' (writes (handleDrawEnd ?Q ex_node)) = [''matrix('' @ ua @ '',-1.2345,0,1,0,0)'']"
    "written ''MozTransform'' (writes (handleDrawEnd ?Q ex_node)) =
       [''matrix('' @ ua @ '',-1.2345,0,1,0px,0px)'']"
    using w' m' by simp_all
  from b first second scale_0_99999 scale_minus_1_23456789 scale_0_50001 scale_3e5
    int32_range_examples
  show ?thesis
    by blast
qed

theorem large_scale_wraps_counterexample:
  "scale_truncate ex_3e5 = Some 3000000000 \<and>
   fixed4_text 3000000000 = ''300000'' \<and>
   written ''transform''
     (writes (handleDrawEnd
        (ex_props True (Fin 1) (ex_matrix ex_3e5 (Fin 0) (Fin 0) (Fin 0)))
        ex_node)) = [''matrix(-129496.7296,0,0,1,0,0)'']"
  by (simp add: first_cycle_ex written_def transform_text_split linear_text_ex
      translation_text_ex text_scaled_0 text_scaled_3e5 text_pixel_0 scale_3e5 fixed4_3e9)

text \<open>
  C10.  After a cycle with an element bound and a visible snapshot the cache holds the
  snapshot's opacity itself, not the four-decimal value that was written.  So the
  opacities 0.5 and 0.50001, less than \<open>10^-4\<close> apart, in two consecutive cycles make
  the second cycle write the opacity again, with the text 0.5 that the first cycle wrote.
\<close>

theorem opacity_compared_with_raw_cache:
  "(\<forall>this el (props :: display_props). htmlElement this = Some el \<and> visible props \<longrightarrow>
      map_option alpha (oldProps (node (handleDrawEnd props this))) = Some (alpha props)) \<and>
   (\<exists>a1 a2. ex_half = Fin a1 \<and> ex_0_50001 = Fin a2 \<and>
      a1 \<noteq> a2 \<and> \<bar>a1 - a2\<bar> < 1 / 10 ^ 4 \<and>
      written ''opacity''
        (writes (handleDrawEnd
           (ex_props True ex_half (ex_matrix (Fin 1) (Fin 0) (Fin 0) (Fin 0))) ex_node)) =
        [''0.5''] \<and>
      writes (handleDrawEnd
         (ex_props True ex_0_50001 (ex_matrix (Fin 1) (Fin 0) (Fin 0) (Fin 0)))
         (node (handleDrawEnd
            (ex_props True ex_half (ex_matrix (Fin 1) (Fin 0) (Fin 0) (Fin 0))) ex_node))) =
        [(''opacity'', ''0.5'')])"
proof (intro conjI allI impI)
  fix this :: dom_element and el :: html_element and props :: display_props
  assume "htmlElement this = Some el \<and> visible props"
  then show "map_option alpha (oldProps (node (handleDrawEnd props this))) = Some (alpha props)"
    by (simp add: node_visible(1) cache_after_fields)
next
  have m: "Matrix2D_equals (ex_matrix (Fin 1) (Fin 0) (Fin 0) (Fin 0)) (ex_matrix (Fin 1) (Fin 0) (Fin 0) (Fin 0))"
    by (simp add: Matrix2D_equals_def js_strict_eq_def ex_matrix_facts)
  have n: "js_neq ex_half ex_0_50001"
    by (simp add: lit_half lit_0_50001 js_neq_def js_strict_eq_def)
  have first: "written ''opacity''
        (writes (handleDrawEnd
           (ex_props True ex_half (ex_matrix (Fin 1) (Fin 0) (Fin 0) (Fin 0))) ex_node)) =
        [''0.5'']"
    by (simp add: first_cycle_ex written_def lit_half text_scaled_half)
  have second: "writes (handleDrawEnd
         (ex_props True ex_0_50001 (ex_matrix (Fin 1) (Fin 0) (Fin 0) (Fin 0)))
         (node (handleDrawEnd
            (ex_props True ex_half (ex_matrix (Fin 1) (Fin 0) (Fin 0) (Fin 0))) ex_node))) =
        [(''opacity'', ''0.5'')]"
    by (simp add: second_cycle_writes [of ex_node ex_element] ex_node_facts ex_props_facts m n
        text_scaled_0_50001)
  have "(1 / 2 :: rat) \<noteq> 4503689699363043 / 9007199254740992"
    and "\<bar>1 / 2 - 4503689699363043 / 9007199254740992 :: rat\<bar> < 1 / 10 ^ 4"
    by simp_all
  with first second lit_half lit_0_50001
  show "\<exists>a1 a2. ex_half = Fin a1 \<and> ex_0_50001 = Fin a2 \<and>
      a1 \<noteq> a2 \<and> \<bar>a1 - a2\<bar> < 1 / 10 ^ 4 \<and>
      written ''opacity''
        (writes (handleDrawEnd
           (ex_props True ex_half (ex_matrix (Fin 1) (Fin 0) (Fin 0) (Fin 0))) ex_node)) =
        [''0.5''] \<and>
      writes (handleDrawEnd
         (ex_props True ex_0_50001 (ex_matrix (Fin 1) (Fin 0) (Fin 0) (Fin 0)))
         (node (handleDrawEnd
            (ex_props True ex_half (ex_matrix (Fin 1) (Fin 0) (Fin 0) (Fin 0))) ex_node))) =
        [(''opacity'', ''0.5'')]"
    by blast
qed

theorem opacity_compared_with_raw_cache_witness:
  "htmlElement ex_node = Some ex_element \<and>
   visible (ex_props True ex_0_50001 (ex_matrix (Fin 1) (Fin 0) (Fin 0) (Fin 0))) \<and>
   map_option alpha
     (oldProps (node (handleDrawEnd
        (ex_props True ex_0_50001 (ex_matrix (Fin 1) (Fin 0) (Fin 0) (Fin 0)))
        ex_node))) = Some ex_0_50001 \<and>
   ex_0_50001 = Fin (4503689699363043 / 9007199254740992) \<and>
   js_num_to_string (scaled ex_0_50001) = ''0.5''"
proof -
  have h: "htmlElement ex_node = Some ex_element \<and>
    visible (ex_props True ex_0_50001 (ex_matrix (Fin 1) (Fin 0) (Fin 0) (Fin 0)))"
    by (simp add: ex_node_facts ex_props_facts)
  from opacity_compared_with_raw_cache
  have "htmlElement ex_node = Some ex_element \<and>
      visible (ex_props True ex_0_50001 (ex_matrix (Fin 1) (Fin 0) (Fin 0) (Fin 0))) \<longrightarrow>
    map_option alpha
     (oldProps (node (handleDrawEnd
        (ex_props True ex_0_50001 (ex_matrix (Fin 1) (Fin 0) (Fin 0) (Fin 0)))
        ex_node))) =
    Some (alpha (ex_props True ex_0_50001 (ex_matrix (Fin 1) (Fin 0) (Fin 0) (Fin 0))))"
    by blast
  with h have "map_option alpha
     (oldProps (node (handleDrawEnd
        (ex_props True ex_0_50001 (ex_matrix (Fin 1) (Fin 0) (Fin 0) (Fin 0)))
        ex_node))) = Some ex_0_50001"
    by (simp add: ex_props_facts)
  with h lit_0_50001 text_scaled_0_50001 show ?thesis
    by blast
qed

section \<open>The subscription to ``drawend''\<close>

lemma stage_on_scopes:
  "set (map scope (stage_on st type self b type)) = insert self (set (map scope (st type)))"
  by (auto simp: stage_on_def)

lemma stage_on_distinct:
  "distinct (map scope (st type)) \<Longrightarrow> distinct (map scope (stage_on st type self b type))"
  by (auto simp: stage_on_def)

lemma stage_on_listeners:
  "set (stage_on st type self b type) \<subseteq> insert \<lparr>scope = self, once = b\<rparr> (set (st type))"
  by (auto simp: stage_on_def)

lemma distinct_count_one:
  "distinct (map f xs) \<Longrightarrow> y \<in> set (map f xs) \<Longrightarrow> length (filter (\<lambda>x. f x = y) xs) = 1"
proof (induction xs)
  case Nil
  then show ?case by simp
next
  case (Cons x xs)
  show ?case
  proof (cases "f x = y")
    case True
    with Cons.prems have "filter (\<lambda>x. f x = y) xs = []"
      by (auto simp: filter_empty_conv image_iff)
    with True show ?thesis by simp
  next
    case False
    with Cons show ?thesis by simp
  qed
qed

lemma ticks_invariant:
  assumes "distinct (map scope (st ''drawend''))"
  shows "\<exists>st' this'. (tick super_tick self evtObj ^^ k) (Some st, this) = (Some st', this') \<and>
           distinct (map scope (st' ''drawend'')) \<and>
           (0 < k \<longrightarrow> self \<in> set (map scope (st' ''drawend''))) \<and>
           set (st' ''drawend'') \<subseteq> insert \<lparr>scope = self, once = True\<rparr> (set (st ''drawend''))"
proof (induction k)
  case 0
  from assms show ?case by auto
next
  case (Suc k)
  then obtain st' this' where step: "(tick super_tick self evtObj ^^ k) (Some st, this) = (Some st', this')"
    and d: "distinct (map scope (st' ''drawend''))"
    and s: "set (st' ''drawend'') \<subseteq> insert \<lparr>scope = self, once = True\<rparr> (set (st ''drawend''))"
    by blast
  have "(tick super_tick self evtObj ^^ Suc k) (Some st, this) =
      (Some (stage_on st' ''drawend'' self True), super_tick evtObj this')"
    by (simp add: step tick_def)
  moreover from d have "distinct (map scope (stage_on st' ''drawend'' self True ''drawend''))"
    by (rule stage_on_distinct)
  moreover have "self \<in> set (map scope (stage_on st' ''drawend'' self True ''drawend''))"
    by (simp only: stage_on_scopes) simp
  moreover from s stage_on_listeners [of st' "''drawend''" self True]
  have "set (stage_on st' ''drawend'' self True ''drawend'') \<subseteq>
      insert \<lparr>scope = self, once = True\<rparr> (set (st ''drawend''))"
    by blast
  ultimately show ?case by blast
qed

text \<open>
  C5.  Let the stage's ``drawend'' subscriptions name no node twice.  After any number
  \<open>k > 0\<close> of ticks of a node attached to the stage, with no dispatch between them, the
  node is subscribed to ``drawend'' exactly once, so that the next dispatch runs its
  \<open>_handleDrawEnd\<close> exactly once; a node that was not subscribed before the ticks is not
  subscribed any more after that dispatch.
\<close>

theorem ticks_subscribe_exactly_once:
  assumes "distinct (map scope (st ''drawend''))" and "0 < k"
  shows "\<exists>st'. fst ((tick super_tick self evtObj ^^ k) (Some st, this)) = Some st' \<and>
           length (filter (\<lambda>l. scope l = self) (st' ''drawend'')) = 1 \<and>
           length (filter (\<lambda>n. n = self) (fst (stage_dispatch st' ''drawend''))) = 1 \<and>
           (self \<notin> set (map scope (st ''drawend'')) \<longrightarrow>
              self \<notin> set (map scope (snd (stage_dispatch st' ''drawend'') ''drawend'')))"
proof -
  from assms ticks_invariant
    [where st = st and super_tick = super_tick and self = self and evtObj = evtObj and k = k
      and this = this]
  obtain st' this' where step: "(tick super_tick self evtObj ^^ k) (Some st, this) = (Some st', this')"
    and d: "distinct (map scope (st' ''drawend''))"
    and m: "self \<in> set (map scope (st' ''drawend''))"
    and s: "set (st' ''drawend'') \<subseteq> insert \<lparr>scope = self, once = True\<rparr> (set (st ''drawend''))"
    by blast
  from d m have one: "length (filter (\<lambda>l. scope l = self) (st' ''drawend'')) = 1"
    by (rule distinct_count_one)
  have "filter (\<lambda>n. n = self) (map scope (st' ''drawend'')) =
      map scope (filter (\<lambda>l. scope l = self) (st' ''drawend''))"
    by (simp add: filter_map comp_def)
  with one have ran: "length (filter (\<lambda>n. n = self) (fst (stage_dispatch st' ''drawend''))) = 1"
    by (simp add: stage_dispatch_def)
  have gone: "self \<notin> set (map scope (snd (stage_dispatch st' ''drawend'') ''drawend''))"
    if "self \<notin> set (map scope (st ''drawend''))"
  proof
    assume "self \<in> set (map scope (snd (stage_dispatch st' ''drawend'') ''drawend''))"
    then obtain l where l: "l \<in> set (st' ''drawend'')" and "\<not> once l" and "scope l = self"
      by (auto simp: stage_dispatch_def)
    from l s have "l = \<lparr>scope = self, once = True\<rparr> \<or> l \<in> set (st ''drawend'')"
      by blast
    with \<open>\<not> once l\<close> have "l \<in> set (st ''drawend'')"
      by auto
    with \<open>scope l = self\<close> that show False
      by auto
  qed
  from step one ran gone show ?thesis
    by simp
qed

theorem ticks_subscribe_exactly_once_witness:
  "distinct (map scope ((\<lambda>type. []) ''drawend'')) \<and> (0 :: nat) < 3 \<and>
   (\<exists>st'. fst ((tick (\<lambda>evtObj this. this) 7 () ^^ 3) (Some (\<lambda>type. []), ex_node)) = Some st' \<and>
      st' ''drawend'' = [\<lparr>scope = 7, once = True\<rparr>] \<and>
      length (filter (\<lambda>n. n = 7) (fst (stage_dispatch st' ''drawend''))) = 1 \<and>
      snd (stage_dispatch st' ''drawend'') ''drawend'' = [])"
proof -
  have d: "distinct (map scope ((\<lambda>type. []) ''drawend''))"
    by simp
  have k: "(0 :: nat) < 3"
    by simp
  from d k ticks_subscribe_exactly_once
    [where st = "\<lambda>type. []" and super_tick = "\<lambda>evtObj this. this" and self = 7
      and evtObj = "()" and k = 3 and this = ex_node]
  obtain st' where f: "fst ((tick (\<lambda>evtObj this. this) 7 () ^^ 3) (Some (\<lambda>type. []), ex_node)) = Some st'"
    and r: "length (filter (\<lambda>n. n = 7) (fst (stage_dispatch st' ''drawend''))) = 1"
    by blast
  have "fst ((tick (\<lambda>evtObj this. this) 7 () ^^ 3) (Some (\<lambda>type. []), ex_node)) =
      Some ((\<lambda>type. [])(''drawend'' := [\<lparr>scope = 7, once = True\<rparr>]))"
    by (simp add: numeral_3_eq_3 tick_def stage_on_def)
  with f have e: "st' = (\<lambda>type. [])(''drawend'' := [\<lparr>scope = 7, once = True\<rparr>])"
    by simp
  then have "st' ''drawend'' = [\<lparr>scope = 7, once = True\<rparr>]"
    and "snd (stage_dispatch st' ''drawend'') ''drawend'' = []"
    by (simp_all add: stage_dispatch_def)
  with d k f r show ?thesis
    by blast
qed

end
